theory Spec2Isabelle
  imports Main "HOL-Library.Sublist"
begin

section \<open>Python strings\<close>

text \<open>
  A Python \<open>str\<close> is modelled as a \<open>string\<close>; each \<open>char\<close> stands for the code point
  of the same number, so the model covers the strings over the code points 0 to 255.
  On that range \<open>str.isspace\<close>, \<open>str.strip()\<close> and \<open>str.lower()\<close> act character by
  character as written below.
\<close>

definition py_isspace :: "char \<Rightarrow> bool" where
  "py_isspace c = (let n = (of_char c :: nat) in
     (9 \<le> n \<and> n \<le> 13) \<or> (28 \<le> n \<and> n \<le> 32) \<or> n = 133 \<or> n = 160)"

definition py_strip :: "string \<Rightarrow> string" where
  "py_strip s = rev (dropWhile py_isspace (rev (dropWhile py_isspace s)))"

definition lower_char :: "char \<Rightarrow> char" where
  "lower_char c = (let n = (of_char c :: nat) in
     if (65 \<le> n \<and> n \<le> 90) \<or> (192 \<le> n \<and> n \<le> 222 \<and> n \<noteq> 215)
     then char_of (n + 32) else c)"

definition py_lower :: "string \<Rightarrow> string" where
  "py_lower s = map lower_char s"

text \<open>\<open>sub in s\<close> on strings: \<open>sub\<close> occurs in \<open>s\<close> as a contiguous run.\<close>

fun py_in :: "string \<Rightarrow> string \<Rightarrow> bool" where
  "py_in sub [] = (sub = [])"
| "py_in sub (c # cs) = (prefix sub (c # cs) \<or> py_in sub cs)"

text \<open>\<open>s.find(c)\<close> and \<open>s.rfind(c)\<close> for a one-character needle: the index of the first
  (last) occurrence, or \<open>-1\<close>.\<close>

fun py_find :: "char \<Rightarrow> string \<Rightarrow> int" where
  "py_find c [] = - 1"
| "py_find c (x # xs) =
     (if x = c then 0 else (let r = py_find c xs in if r = - 1 then - 1 else r + 1))"

fun py_rfind :: "char \<Rightarrow> string \<Rightarrow> int" where
  "py_rfind c [] = - 1"
| "py_rfind c (x # xs) =
     (let r = py_rfind c xs in if r \<noteq> - 1 then r + 1 else if x = c then 0 else - 1)"

text \<open>\<open>s[a:b]\<close>: a negative bound counts from the end, and both bounds are clamped to
  the string.\<close>

definition clamp_index :: "nat \<Rightarrow> int \<Rightarrow> nat" where
  "clamp_index n i = (if i < 0 then nat (max 0 (int n + i)) else min n (nat i))"

definition py_slice :: "string \<Rightarrow> int \<Rightarrow> int \<Rightarrow> string" where
  "py_slice s a b =
     (let i = clamp_index (length s) a; j = clamp_index (length s) b
      in take (j - i) (drop i s))"

text \<open>\<open>s[-n:]\<close> on a list, for \<open>n > 0\<close>: the last \<open>n\<close> elements.\<close>

definition py_last_n :: "nat \<Rightarrow> 'a list \<Rightarrow> 'a list" where
  "py_last_n n xs = drop (length xs - n) xs"

text \<open>\<open>sep.join(parts)\<close>.\<close>

fun py_join :: "string \<Rightarrow> string list \<Rightarrow> string" where
  "py_join sep [] = []"
| "py_join sep [p] = p"
| "py_join sep (p # q # ps) = p @ sep @ py_join sep (q # ps)"

text \<open>\<open>s.replace(old, new)\<close> for a non-empty \<open>old\<close>: every occurrence, left to right,
  without overlap.\<close>

fun py_replace :: "string \<Rightarrow> string \<Rightarrow> string \<Rightarrow> string" where
  "py_replace old new [] = []"
| "py_replace old new (c # cs) =
     (if old \<noteq> [] \<and> prefix old (c # cs)
      then new @ py_replace old new (drop (length old) (c # cs))
      else c # py_replace old new cs)"

text \<open>\<open>str(n)\<close> for an integer.\<close>

fun str_nat :: "nat \<Rightarrow> string" where
  "str_nat n =
     (if n < 10 then [char_of (48 + n)]
      else str_nat (n div 10) @ [char_of (48 + n mod 10)])"

declare str_nat.simps [simp del]

definition str_int :: "int \<Rightarrow> string" where
  "str_int i = (if i < 0 then CHR ''-'' # str_nat (nat (- i)) else str_nat (nat i))"

text \<open>Truthiness of an \<open>Optional[str]\<close>: \<open>None\<close> and the empty string are false.\<close>

definition truthy :: "string option \<Rightarrow> bool" where
  "truthy r = (case r of None \<Rightarrow> False | Some s \<Rightarrow> s \<noteq> [])"

section \<open>JSON values\<close>

text \<open>
  What \<open>json.loads\<close> returns. A float keeps its text.
\<close>

datatype json =
    JNull
  | JBool bool
  | JInt int
  | JFloat string
  | JString string
  | JList "json list"
  | JDict "(string \<times> json) list"

text \<open>Each exception carries the text \<open>str(e)\<close> gives.\<close>

datatype exn =
    KeyError string
  | IndexError string
  | ValueError string
  | AttributeError string
  | RecursionError string
  | DatabaseError string

fun str_exn :: "exn \<Rightarrow> string" where
  "str_exn (KeyError m) = m"
| "str_exn (IndexError m) = m"
| "str_exn (ValueError m) = m"
| "str_exn (AttributeError m) = m"
| "str_exn (RecursionError m) = m"
| "str_exn (DatabaseError m) = m"

text \<open>
  \<open>json.loads\<close> itself is a parameter of the model. On a text it returns the decoded
  value, or raises \<open>JSONDecodeError\<close>, or raises something else: the decoder raises
  \<open>RecursionError\<close> on arrays nested beyond the recursion limit and a plain
  \<open>ValueError\<close> on an integer literal beyond the digit limit, and neither is a
  \<open>JSONDecodeError\<close>.
\<close>

datatype loads_result =
    Parsed json
  | JSONDecodeError
  | LoadsError exn

section \<open>Response interpreters\<close>

text \<open>
  \<open>categorize_email\<close>, after the model call (\<open>llm_service.py\<close> lines 119 to 128,
  \<open>ollama_service.py\<close> lines 151 to 160, the same text in both): the loop over
  \<open>valid_categories\<close> returns at the first match and falls through to the stripped
  response.
\<close>

definition valid_categories :: "string list" where
  "valid_categories = [''Important'', ''Newsletter'', ''Spam'', ''To-Do'']"

fun match_category :: "string list \<Rightarrow> string \<Rightarrow> string" where
  "match_category [] category = category"
| "match_category (cat # cats) category =
     (if py_in (py_lower cat) (py_lower category) then cat
      else match_category cats category)"

definition category_of_response :: "string option \<Rightarrow> string option" where
  "category_of_response response =
     (case response of
        None \<Rightarrow> None
      | Some r \<Rightarrow>
          if r = [] then None
          else Some (match_category valid_categories (py_strip r)))"

text \<open>
  \<open>extract_action_items\<close>, after the model call (\<open>llm_service.py\<close> lines 157 to 180,
  \<open>ollama_service.py\<close> lines 190 to 212). The \<open>except json.JSONDecodeError\<close> clause
  catches that exception alone; any other exception of \<open>json.loads\<close> leaves the
  method.
\<close>

definition action_items_of_response ::
  "(string \<Rightarrow> loads_result) \<Rightarrow> string option \<Rightarrow> exn + json list" where
  "action_items_of_response loads response =
     (case response of
        None \<Rightarrow> Inr []
      | Some r0 \<Rightarrow>
          if r0 = [] then Inr []
          else
            (let r = py_strip r0;
                 start_idx = py_find CHR ''['' r;
                 end_idx = py_rfind CHR '']'' r
             in if start_idx \<noteq> - 1 \<and> end_idx \<noteq> - 1 then
                  (case loads (py_slice r start_idx (end_idx + 1)) of
                     Parsed action_items \<Rightarrow>
                       (case action_items of JList items \<Rightarrow> Inr items | _ \<Rightarrow> Inr [])
                   | JSONDecodeError \<Rightarrow> Inr []
                   | LoadsError ex \<Rightarrow> Inl ex)
                else Inr []))"


definition bracket_span :: "string \<Rightarrow> string" where
  "bracket_span s =
     dropWhile (\<lambda>c. c \<noteq> CHR ''['') (rev (dropWhile (\<lambda>c. c \<noteq> CHR '']'') (rev s)))"

section \<open>The environment\<close>

text \<open>
  What one attempt of \<open>LLMService._call_llm\<close> meets inside its \<open>try\<close>: a completion
  (\<open>message.content\<close>, which may be \<open>None\<close>, and \<open>usage.total_tokens\<close> when usage is
  reported), or one of the exceptions the four \<open>except\<close> clauses tell apart, in their
  order: \<open>RateLimitError\<close>, \<open>APITimeoutError\<close>, any other \<open>APIError\<close>, any other
  \<open>Exception\<close>.
\<close>

datatype openai_outcome =
    Completion "string option" "nat option"
  | RateLimitError
  | APITimeoutError
  | APIError
  | OtherException

text \<open>
  What one attempt of \<open>OllamaService._call_llm\<close> meets: status 200 with the text
  \<open>result.get("response", "")\<close>, status 404, another status, or an exception
  (\<open>ConnectionError\<close>, \<open>Timeout\<close>, any other).
\<close>

datatype ollama_outcome =
    Ok200 string
  | NotFound404
  | OtherStatus nat
  | ConnectionError
  | Timeout
  | OllamaException

datatype provider = OpenAI | Ollama

text \<open>
  Everything outside the repository is a field of the environment: the configuration,
  the two backends (the outcome of the \<open>n\<close>-th request of the process), the built-ins
  \<open>template.format(email_content=c)\<close>, \<open>json.loads\<close> and \<open>str\<close> on a decoded value, and
  the faults of the store (whether its \<open>n\<close>-th \<open>update_email\<close> or \<open>insert_log\<close> raises).
  Reads of the store do not fail in this model.
\<close>

record env =
  llm_provider :: provider
  max_retries :: int
  openai_create :: "nat \<Rightarrow> openai_outcome"
  ollama_post :: "nat \<Rightarrow> ollama_outcome"
  str_format :: "string \<Rightarrow> string \<Rightarrow> exn + string"
  json_loads :: "string \<Rightarrow> loads_result"
  py_str :: "json \<Rightarrow> string"
  update_error :: "nat \<Rightarrow> string option"
  insert_log_fails :: "nat \<Rightarrow> bool"

section \<open>Provider clients\<close>

type_synonym message = "string \<times> string"

datatype request =
    ChatRequest "message list" nat
  | GenerateRequest string nat

datatype op = OpCategorize | OpExtract | OpReply | OpAnswer

text \<open>
  The state of the service: the usage counter of the source, and a record of what it
  did (the requests sent, the arguments of \<open>time.sleep\<close>, the operations entered).
  The sampling temperature is passed to the backend unchanged and is left out, as is
  the floating-point token estimate of \<open>OllamaService\<close>; \<open>stream\<close> is \<open>False\<close> in every
  call the operations below make.
\<close>

record llm_state =
  calls :: nat
  sleeps :: "nat list"
  total_tokens_used :: nat
  requests :: "request list"
  ops :: "op list"

text \<open>\<open>LLMService._call_llm\<close>: the loop \<open>for attempt in range(self.max_retries)\<close>.\<close>

fun openai_attempts ::
  "env \<Rightarrow> message list \<Rightarrow> nat \<Rightarrow> nat list \<Rightarrow> llm_state \<Rightarrow> string option \<times> llm_state" where
  "openai_attempts env messages max_tokens [] s = (None, s)"
| "openai_attempts env messages max_tokens (attempt # rest) s =
     (let s1 = s\<lparr>calls := Suc (calls s),
                  requests := requests s @ [ChatRequest messages max_tokens]\<rparr>
      in case openai_create env (calls s) of
           Completion content usage \<Rightarrow>
             (content,
              case usage of
                None \<Rightarrow> s1
              | Some n \<Rightarrow> s1\<lparr>total_tokens_used := total_tokens_used s1 + n\<rparr>)
         | RateLimitError \<Rightarrow>
             if int attempt < max_retries env - 1
             then openai_attempts env messages max_tokens rest
                    (s1\<lparr>sleeps := sleeps s1 @ [2 ^ attempt]\<rparr>)
             else (None, s1)
         | APITimeoutError \<Rightarrow>
             if int attempt < max_retries env - 1
             then openai_attempts env messages max_tokens rest (s1\<lparr>sleeps := sleeps s1 @ [1]\<rparr>)
             else (None, s1)
         | APIError \<Rightarrow>
             if int attempt < max_retries env - 1
             then openai_attempts env messages max_tokens rest (s1\<lparr>sleeps := sleeps s1 @ [1]\<rparr>)
             else (None, s1)
         | OtherException \<Rightarrow> (None, s1))"

definition openai_call_llm ::
  "env \<Rightarrow> message list \<Rightarrow> nat \<Rightarrow> llm_state \<Rightarrow> string option \<times> llm_state" where
  "openai_call_llm env messages max_tokens s =
     openai_attempts env messages max_tokens [0..<nat (max_retries env)] s"

text \<open>\<open>OllamaService._messages_to_prompt\<close> and \<open>OllamaService._call_llm\<close>
  (\<open>self.max_retries = 3\<close>).\<close>

fun prompt_parts :: "message list \<Rightarrow> string list" where
  "prompt_parts [] = []"
| "prompt_parts ((role, content) # msgs) =
     (if role = ''system'' then [''System: '' @ content @ [CHR 0x0A]]
      else if role = ''user'' then [''User: '' @ content @ [CHR 0x0A]]
      else if role = ''assistant'' then [''Assistant: '' @ content @ [CHR 0x0A]]
      else []) @ prompt_parts msgs"

definition messages_to_prompt :: "message list \<Rightarrow> string" where
  "messages_to_prompt messages = py_join [CHR 0x0A] (prompt_parts messages @ [''Assistant: ''])"

fun ollama_attempts ::
  "env \<Rightarrow> string \<Rightarrow> nat \<Rightarrow> nat list \<Rightarrow> llm_state \<Rightarrow> string option \<times> llm_state" where
  "ollama_attempts env prompt max_tokens [] s = (None, s)"
| "ollama_attempts env prompt max_tokens (attempt # rest) s =
     (let s1 = s\<lparr>calls := Suc (calls s),
                  requests := requests s @ [GenerateRequest prompt max_tokens]\<rparr>
      in case ollama_post env (calls s) of
           Ok200 content \<Rightarrow> (Some content, s1)
         | NotFound404 \<Rightarrow> (None, s1)
         | OtherStatus code \<Rightarrow> ollama_attempts env prompt max_tokens rest s1
         | ConnectionError \<Rightarrow>
             if attempt < 3 - 1
             then ollama_attempts env prompt max_tokens rest (s1\<lparr>sleeps := sleeps s1 @ [2]\<rparr>)
             else (None, s1)
         | Timeout \<Rightarrow>
             if attempt < 3 - 1
             then ollama_attempts env prompt max_tokens rest (s1\<lparr>sleeps := sleeps s1 @ [1]\<rparr>)
             else (None, s1)
         | OllamaException \<Rightarrow> (None, s1))"

definition ollama_call_llm ::
  "env \<Rightarrow> message list \<Rightarrow> nat \<Rightarrow> llm_state \<Rightarrow> string option \<times> llm_state" where
  "ollama_call_llm env messages max_tokens s =
     ollama_attempts env (messages_to_prompt messages) max_tokens [0..<3] s"

definition categorize_system :: string where
  "categorize_system =
     ''You are an email classification expert. Respond with ONLY the category name.''"

definition extract_system :: string where
  "extract_system =
     ''You are an expert at extracting actionable tasks from emails. Always respond with valid JSON.''"

definition reply_system :: string where
  "reply_system =
     ''You are a professional email assistant. Write clear, concise, and appropriate email responses.''"

definition answer_system :: string where
  "answer_system =
     ''You are an intelligent email productivity assistant. '' @
     ''Help users manage their inbox, understand emails, and draft responses. '' @
     ''Be concise, helpful, and professional. '' @
     ''If you reference specific emails, cite them clearly.''"

definition enter :: "op \<Rightarrow> llm_state \<Rightarrow> llm_state" where
  "enter opn s = s\<lparr>ops := ops s @ [opn]\<rparr>"

text \<open>The four operations of \<open>LLMService\<close>; an exception of \<open>str.format\<close> leaves the
  operation as it is raised.\<close>

definition openai_categorize_email ::
  "env \<Rightarrow> string \<Rightarrow> string \<Rightarrow> llm_state \<Rightarrow> (exn + string option) \<times> llm_state" where
  "openai_categorize_email env email_content categorization_prompt s0 =
     (let s = enter OpCategorize s0
      in case str_format env categorization_prompt email_content of
           Inl e \<Rightarrow> (Inl e, s)
         | Inr prompt \<Rightarrow>
             (case openai_call_llm env
                     [(''system'', categorize_system), (''user'', prompt)] 50 s of
                (response, s') \<Rightarrow> (Inr (category_of_response response), s')))"

definition openai_extract_action_items ::
  "env \<Rightarrow> string \<Rightarrow> string \<Rightarrow> llm_state \<Rightarrow> (exn + json list) \<times> llm_state" where
  "openai_extract_action_items env email_content action_prompt s0 =
     (let s = enter OpExtract s0
      in case str_format env action_prompt email_content of
           Inl e \<Rightarrow> (Inl e, s)
         | Inr prompt \<Rightarrow>
             (case openai_call_llm env
                     [(''system'', extract_system), (''user'', prompt)] 500 s of
                (response, s') \<Rightarrow>
                  (action_items_of_response (json_loads env) response, s')))"

definition with_instruction :: "string \<Rightarrow> string option \<Rightarrow> string" where
  "with_instruction prompt user_instruction =
     (case user_instruction of
        None \<Rightarrow> prompt
      | Some u \<Rightarrow>
          if u = [] then prompt
          else prompt @ [CHR 0x0A, CHR 0x0A] @ ''Additional Instructions: '' @ u)"

definition openai_generate_reply ::
  "env \<Rightarrow> string \<Rightarrow> string \<Rightarrow> string \<Rightarrow> string option \<Rightarrow> llm_state
     \<Rightarrow> (exn + string option) \<times> llm_state" where
  "openai_generate_reply env email_content context reply_prompt user_instruction s0 =
     (let s = enter OpReply s0
      in case str_format env reply_prompt email_content of
           Inl e \<Rightarrow> (Inl e, s)
         | Inr prompt \<Rightarrow>
             (case openai_call_llm env
                     [(''system'', reply_system),
                      (''user'', with_instruction prompt user_instruction)] 800 s of
                (response, s') \<Rightarrow> (Inr response, s')))"

text \<open>The messages \<open>answer_query\<close> builds, the same in both services
  (\<open>config.MAX_CONVERSATION_HISTORY\<close> is 5).\<close>

definition answer_messages ::
  "string \<Rightarrow> string option \<Rightarrow> string option \<Rightarrow> message list \<Rightarrow> message list" where
  "answer_messages query email_context prompt_context conversation_history =
     (let history = (if conversation_history \<noteq> [] then py_last_n 5 conversation_history else []);
          full_query =
            (if truthy email_context
             then ''Email Context:'' @ [CHR 0x0A] @ the email_context @ [CHR 0x0A, CHR 0x0A] @
                  ''User Query: '' @ query
             else query);
          full_query2 =
            (if truthy prompt_context
             then full_query @ [CHR 0x0A, CHR 0x0A] @ ''Prompt Configuration: '' @ the prompt_context
             else full_query)
      in [(''system'', answer_system)] @ history @ [(''user'', full_query2)])"

definition openai_answer_query ::
  "env \<Rightarrow> string \<Rightarrow> string option \<Rightarrow> string option \<Rightarrow> message list \<Rightarrow> llm_state
     \<Rightarrow> string option \<times> llm_state" where
  "openai_answer_query env query email_context prompt_context conversation_history s0 =
     openai_call_llm env
       (answer_messages query email_context prompt_context conversation_history) 1000
       (enter OpAnswer s0)"

text \<open>The four operations of \<open>OllamaService\<close>; the placeholder is filled by
  \<open>str.replace\<close>, which raises nothing.\<close>

definition ollama_categorize_email ::
  "env \<Rightarrow> string \<Rightarrow> string \<Rightarrow> llm_state \<Rightarrow> string option \<times> llm_state" where
  "ollama_categorize_email env email_content categorization_prompt s0 =
     (let prompt = py_replace ''{email_content}'' email_content categorization_prompt
      in case ollama_call_llm env
                [(''system'', categorize_system), (''user'', prompt)] 50
                (enter OpCategorize s0) of
           (response, s') \<Rightarrow> (category_of_response response, s'))"

definition ollama_extract_action_items ::
  "env \<Rightarrow> string \<Rightarrow> string \<Rightarrow> llm_state \<Rightarrow> (exn + json list) \<times> llm_state" where
  "ollama_extract_action_items env email_content action_prompt s0 =
     (let prompt = py_replace ''{email_content}'' email_content action_prompt
      in case ollama_call_llm env
                [(''system'', extract_system), (''user'', prompt)] 500
                (enter OpExtract s0) of
           (response, s') \<Rightarrow> (action_items_of_response (json_loads env) response, s'))"

definition ollama_generate_reply ::
  "env \<Rightarrow> string \<Rightarrow> string \<Rightarrow> string \<Rightarrow> string option \<Rightarrow> llm_state
     \<Rightarrow> string option \<times> llm_state" where
  "ollama_generate_reply env email_content context reply_prompt user_instruction s0 =
     (let prompt = py_replace ''{email_content}'' email_content reply_prompt
      in ollama_call_llm env
           [(''system'', reply_system),
            (''user'', with_instruction prompt user_instruction)] 800
           (enter OpReply s0))"

definition ollama_answer_query ::
  "env \<Rightarrow> string \<Rightarrow> string option \<Rightarrow> string option \<Rightarrow> message list \<Rightarrow> llm_state
     \<Rightarrow> string option \<times> llm_state" where
  "ollama_answer_query env query email_context prompt_context conversation_history s0 =
     ollama_call_llm env
       (answer_messages query email_context prompt_context conversation_history) 1000
       (enter OpAnswer s0)"

section \<open>Unified service\<close>

text \<open>\<open>UnifiedLLMService\<close> hands each operation to the service chosen at construction.\<close>

definition categorize_email ::
  "env \<Rightarrow> string \<Rightarrow> string \<Rightarrow> llm_state \<Rightarrow> (exn + string option) \<times> llm_state" where
  "categorize_email env email_content categorization_prompt s =
     (case llm_provider env of
        OpenAI \<Rightarrow> openai_categorize_email env email_content categorization_prompt s
      | Ollama \<Rightarrow>
          (case ollama_categorize_email env email_content categorization_prompt s of
             (r, s') \<Rightarrow> (Inr r, s')))"

definition extract_action_items ::
  "env \<Rightarrow> string \<Rightarrow> string \<Rightarrow> llm_state \<Rightarrow> (exn + json list) \<times> llm_state" where
  "extract_action_items env email_content action_prompt s =
     (case llm_provider env of
        OpenAI \<Rightarrow> openai_extract_action_items env email_content action_prompt s
      | Ollama \<Rightarrow> ollama_extract_action_items env email_content action_prompt s)"

definition generate_reply ::
  "env \<Rightarrow> string \<Rightarrow> string \<Rightarrow> string \<Rightarrow> string option \<Rightarrow> llm_state
     \<Rightarrow> (exn + string option) \<times> llm_state" where
  "generate_reply env email_content context reply_prompt user_instruction s =
     (case llm_provider env of
        OpenAI \<Rightarrow> openai_generate_reply env email_content context reply_prompt user_instruction s
      | Ollama \<Rightarrow>
          (case ollama_generate_reply env email_content context reply_prompt user_instruction s of
             (r, s') \<Rightarrow> (Inr r, s')))"

definition answer_query ::
  "env \<Rightarrow> string \<Rightarrow> string option \<Rightarrow> string option \<Rightarrow> message list \<Rightarrow> llm_state
     \<Rightarrow> string option \<times> llm_state" where
  "answer_query env query email_context prompt_context conversation_history s =
     (case llm_provider env of
        OpenAI \<Rightarrow> openai_answer_query env query email_context prompt_context conversation_history s
      | Ollama \<Rightarrow> ollama_answer_query env query email_context prompt_context conversation_history s)"

section \<open>The store\<close>

text \<open>
  \<open>Email\<close>, \<open>ProcessingLog\<close> and \<open>AgentMessage\<close> of \<open>models.py\<close>. Time stamps are kept
  as the text \<open>str\<close> gives; the log's own time stamp and row ids are left out. The
  rows of the \<open>emails\<close> table are listed in the order \<open>ORDER BY timestamp DESC\<close>
  returns them, which no operation below changes.
\<close>

record email =
  email_id :: int
  sender :: string
  subject :: string
  body :: string
  timestamp :: string
  has_attachment :: bool
  category :: "string option"
  action_items :: "json list"
  processed :: bool
  created_at :: string

record log_entry =
  log_email_id :: int
  operation :: string
  status :: string
  llm_response :: "string option"
  error_message :: "string option"

record agent_message =
  role :: string
  content :: string

text \<open>\<open>prompts\<close> maps a prompt type to the text of its active prompt. The two counters
  number the calls of \<open>update_email\<close> and \<open>insert_log\<close>.\<close>

record database =
  emails :: "email list"
  prompts :: "string \<Rightarrow> string option"
  logs :: "log_entry list"
  update_calls :: nat
  log_calls :: nat

definition get_email :: "database \<Rightarrow> int \<Rightarrow> email option" where
  "get_email d i = find (\<lambda>e. email_id e = i) (emails d)"

definition get_all_emails :: "database \<Rightarrow> email list" where
  "get_all_emails d = take 100 (emails d)"

definition get_prompt :: "database \<Rightarrow> string \<Rightarrow> string option" where
  "get_prompt d prompt_type = prompts d prompt_type"

text \<open>\<open>Database.update_email\<close>: one \<open>UPDATE\<close> of the fields that are not \<open>None\<close>, in one
  transaction; when it raises, the transaction is rolled back.\<close>

definition set_fields ::
  "string option \<Rightarrow> json list option \<Rightarrow> bool option \<Rightarrow> email \<Rightarrow> email" where
  "set_fields cat items proc e =
     e\<lparr>category := (case cat of None \<Rightarrow> category e | Some c \<Rightarrow> Some c),
       action_items := (case items of None \<Rightarrow> action_items e | Some a \<Rightarrow> a),
       processed := (case proc of None \<Rightarrow> processed e | Some b \<Rightarrow> b)\<rparr>"

definition update_email ::
  "env \<Rightarrow> int \<Rightarrow> string option \<Rightarrow> json list option \<Rightarrow> bool option \<Rightarrow> database
     \<Rightarrow> exn option \<times> database" where
  "update_email env i cat items proc d =
     (let d1 = d\<lparr>update_calls := Suc (update_calls d)\<rparr>
      in case update_error env (update_calls d) of
           Some msg \<Rightarrow> (Some (DatabaseError msg), d1)
         | None \<Rightarrow>
             (None,
              d1\<lparr>emails :=
                   map (\<lambda>e. if email_id e = i then set_fields cat items proc e else e)
                     (emails d1)\<rparr>))"

text \<open>\<open>EmailProcessor._log_processing\<close>: an exception of \<open>insert_log\<close> is caught and
  dropped.\<close>

definition log_processing ::
  "env \<Rightarrow> int \<Rightarrow> string \<Rightarrow> string \<Rightarrow> string option \<Rightarrow> string option \<Rightarrow> database \<Rightarrow> database" where
  "log_processing env i opn st resp err d =
     (let d1 = d\<lparr>log_calls := Suc (log_calls d)\<rparr>
      in if insert_log_fails env (log_calls d) then d1
         else d1\<lparr>logs := logs d1 @
                  [\<lparr>log_email_id = i, operation = opn, status = st,
                    llm_response = resp, error_message = err\<rparr>]\<rparr>)"

section \<open>Processing pipeline\<close>

record world =
  db :: database
  llm :: llm_state

definition email_content_of :: "email \<Rightarrow> string" where
  "email_content_of e =
     ''From: '' @ sender e @ [CHR 0x0A] @ ''Subject: '' @ subject e @ [CHR 0x0A, CHR 0x0A] @ body e"

text \<open>\<open>EmailProcessor._categorize_email\<close>.\<close>

definition processor_categorize_email ::
  "env \<Rightarrow> email \<Rightarrow> world \<Rightarrow> (exn + string option) \<times> world" where
  "processor_categorize_email env e w =
     (case get_prompt (db w) ''categorization'' of
        None \<Rightarrow> (Inr None, w)
      | Some prompt_text \<Rightarrow>
          (case categorize_email env (email_content_of e) prompt_text (llm w) of
             (Inl ex, l') \<Rightarrow> (Inl ex, w\<lparr>llm := l'\<rparr>)
           | (Inr cat, l') \<Rightarrow>
               if truthy cat
               then (Inr cat,
                     w\<lparr>llm := l',
                       db := log_processing env (email_id e) ''categorization'' ''success''
                               cat None (db w)\<rparr>)
               else (Inr cat,
                     w\<lparr>llm := l',
                       db := log_processing env (email_id e) ''categorization'' ''failed''
                               None (Some ''LLM returned no category'') (db w)\<rparr>)))"

text \<open>\<open>EmailProcessor._extract_action_items\<close>.\<close>

definition processor_extract_action_items ::
  "env \<Rightarrow> email \<Rightarrow> world \<Rightarrow> (exn + json list) \<times> world" where
  "processor_extract_action_items env e w =
     (case get_prompt (db w) ''action_extraction'' of
        None \<Rightarrow> (Inr [], w)
      | Some prompt_text \<Rightarrow>
          (case extract_action_items env (email_content_of e) prompt_text (llm w) of
             (Inl ex, l') \<Rightarrow> (Inl ex, w\<lparr>llm := l'\<rparr>)
           | (Inr items, l') \<Rightarrow>
               (Inr items,
                w\<lparr>llm := l',
                  db := log_processing env (email_id e) ''action_extraction'' ''success''
                          (Some (if items \<noteq> []
                                 then ''Found '' @ str_nat (length items) @ '' action items''
                                 else ''No action items found''))
                          None (db w)\<rparr>)))"

text \<open>\<open>EmailProcessor.process_email\<close>. The result is the returned flag, or the exception
  that leaves the method; the world is the one reached in either case.\<close>

definition process_email :: "env \<Rightarrow> int \<Rightarrow> world \<Rightarrow> (exn + bool) \<times> world" where
  "process_email env i w =
     (case get_email (db w) i of
        None \<Rightarrow> (Inr False, w)
      | Some e \<Rightarrow>
          (case processor_categorize_email env e w of
             (Inl ex, w1) \<Rightarrow> (Inl ex, w1)
           | (Inr cat, w1) \<Rightarrow>
               if \<not> truthy cat
               then (Inr False,
                     w1\<lparr>db := log_processing env i ''categorization'' ''failed''
                                None (Some ''LLM categorization failed'') (db w1)\<rparr>)
               else
                 (case processor_extract_action_items env e w1 of
                    (Inl ex, w2) \<Rightarrow> (Inl ex, w2)
                  | (Inr items, w2) \<Rightarrow>
                      (case update_email env i cat (Some items) (Some True) (db w2) of
                         (Some ex, d3) \<Rightarrow>
                           (Inr False,
                            w2\<lparr>db := log_processing env i ''database_update'' ''failed''
                                       None (Some (str_exn ex)) d3\<rparr>)
                       | (None, d3) \<Rightarrow>
                           (Inr True,
                            w2\<lparr>db := log_processing env i ''complete_processing'' ''success''
                                       (Some (''Category: '' @ the cat @ '', Actions: '' @
                                              str_nat (length items)))
                                       None d3\<rparr>)))))"

text \<open>\<open>EmailProcessor.batch_process_emails\<close>: the dictionary \<open>results\<close> and the loop over
  the ids, with its \<open>try\<close> around each item.\<close>

record batch_results =
  total :: nat
  successful :: nat
  failed :: nat
  errors :: "string list"

fun batch_loop :: "env \<Rightarrow> int list \<Rightarrow> batch_results \<Rightarrow> world \<Rightarrow> batch_results \<times> world" where
  "batch_loop env [] results w = (results, w)"
| "batch_loop env (i # ids) results w =
     (case process_email env i w of
        (Inr ok, w') \<Rightarrow>
          if ok
          then batch_loop env ids (results\<lparr>successful := successful results + 1\<rparr>) w'
          else batch_loop env ids
                 (results\<lparr>failed := failed results + 1,
                          errors := errors results @
                            [''Email '' @ str_int i @ '' processing failed'']\<rparr>) w'
      | (Inl ex, w') \<Rightarrow>
          batch_loop env ids
            (results\<lparr>failed := failed results + 1,
                     errors := errors results @
                       [''Email '' @ str_int i @ '': '' @ str_exn ex]\<rparr>) w')"

definition batch_process_emails :: "env \<Rightarrow> int list \<Rightarrow> world \<Rightarrow> batch_results \<times> world" where
  "batch_process_emails env email_ids w =
     batch_loop env email_ids
       \<lparr>total = length email_ids, successful = 0, failed = 0, errors = []\<rparr> w"

section \<open>Query router\<close>

definition inbox_keywords :: "string list" where
  "inbox_keywords =
     [''show'', ''list'', ''urgent'', ''important'', ''all'',
      ''how many'', ''what'', ''tasks'', ''emails from'']"

definition is_inbox_query :: "string \<Rightarrow> bool" where
  "is_inbox_query query =
     (let query_lower = py_lower query
      in list_ex (\<lambda>keyword. py_in keyword query_lower) inbox_keywords)"

text \<open>\<open>x or default\<close> on an \<open>Optional[str]\<close>.\<close>

definition or_default :: "string option \<Rightarrow> string \<Rightarrow> string" where
  "or_default x dflt = (if truthy x then the x else dflt)"

text \<open>\<open>item.get('task', 'Unknown')\<close> inside the f-string: only a dictionary has \<open>get\<close>.\<close>

fun type_name :: "json \<Rightarrow> string" where
  "type_name JNull = ''NoneType''"
| "type_name (JBool b) = ''bool''"
| "type_name (JInt i) = ''int''"
| "type_name (JFloat f) = ''float''"
| "type_name (JString s) = ''str''"
| "type_name (JList xs) = ''list''"
| "type_name (JDict kvs) = ''dict''"

fun task_line :: "env \<Rightarrow> json \<Rightarrow> exn + string" where
  "task_line env (JDict kvs) =
     Inr (''  - '' @ (case map_of kvs ''task'' of None \<Rightarrow> ''Unknown'' | Some v \<Rightarrow> py_str env v))"
| "task_line env item =
     Inl (AttributeError
            ([CHR 0x27] @ type_name item @ [CHR 0x27] @ '' object has no attribute '' @
             [CHR 0x27] @ ''get'' @ [CHR 0x27]))"

fun task_lines :: "env \<Rightarrow> json list \<Rightarrow> exn + string list" where
  "task_lines env [] = Inr []"
| "task_lines env (item # items) =
     (case task_line env item of
        Inl ex \<Rightarrow> Inl ex
      | Inr line \<Rightarrow>
          (case task_lines env items of
             Inl ex \<Rightarrow> Inl ex
           | Inr lines \<Rightarrow> Inr (line # lines)))"

text \<open>\<open>EmailAgent._build_email_context\<close>.\<close>

definition build_email_context :: "env \<Rightarrow> email \<Rightarrow> exn + string" where
  "build_email_context env e =
     (let context_parts =
            [''Email ID: '' @ str_int (email_id e),
             ''From: '' @ sender e,
             ''Subject: '' @ subject e,
             ''Date: '' @ timestamp e,
             ''Category: '' @ or_default (category e) ''Uncategorized'',
             [CHR 0x0A] @ ''Content:'' @ [CHR 0x0A] @ body e]
      in if action_items e \<noteq> [] then
           (case task_lines env (action_items e) of
              Inl ex \<Rightarrow> Inl ex
            | Inr lines \<Rightarrow>
                Inr (py_join [CHR 0x0A]
                       (context_parts @
                        [[CHR 0x0A] @ ''Action Items: '' @ str_nat (length (action_items e))] @
                        lines)))
         else Inr (py_join [CHR 0x0A] context_parts))"

text \<open>\<open>EmailAgent._build_inbox_context\<close>: the dictionary \<open>categories\<close> keeps its keys in
  the order of their first insertion.\<close>

fun bump :: "string \<Rightarrow> (string \<times> nat) list \<Rightarrow> (string \<times> nat) list" where
  "bump k [] = [(k, 1)]"
| "bump k ((k', v) # kvs) = (if k = k' then (k', v + 1) # kvs else (k', v) # bump k kvs)"

fun count_inbox :: "email list \<Rightarrow> (string \<times> nat) list \<Rightarrow> nat \<Rightarrow> (string \<times> nat) list \<times> nat" where
  "count_inbox [] categories total_actions = (categories, total_actions)"
| "count_inbox (e # es) categories total_actions =
     count_inbox es (bump (or_default (category e) ''Uncategorized'') categories)
       (total_actions + length (action_items e))"

definition build_inbox_context :: "database \<Rightarrow> string \<Rightarrow> string" where
  "build_inbox_context d query =
     (let all_emails = get_all_emails d
      in if all_emails = [] then ''Inbox is empty.''
         else
           (case count_inbox all_emails [] 0 of
              (categories, total_actions) \<Rightarrow>
                py_join [CHR 0x0A]
                  ([''Total Emails: '' @ str_nat (length all_emails),
                    ''Categories: '' @
                      py_join '', '' (map (\<lambda>(k, v). k @ '': '' @ str_nat v) categories),
                    ''Total Action Items: '' @ str_nat total_actions,
                    [CHR 0x0A] @ ''Recent Emails:''] @
                   map (\<lambda>e. ''  - ['' @ or_default (category e) ''N/A'' @ ''] '' @
                              subject e @ '' from '' @ sender e)
                     (take 5 all_emails))))"

definition fallback :: string where
  "fallback =
     ''I apologize, but I'' @ [CHR 0x27] @
     ''m having trouble processing your request. Please try again.''"

text \<open>\<open>EmailAgent.handle_query\<close>: the history handed to the service (lines 44 to 49),
  the choice of context (lines 52 to 62; \<open>if selected_email_id:\<close> is false for \<open>None\<close>
  and for \<open>0\<close>), and the call with its fallback (lines 65 to 74).\<close>

definition history_messages :: "agent_message list \<Rightarrow> message list" where
  "history_messages conversation_history =
     (if conversation_history \<noteq> []
      then map (\<lambda>msg. (role msg, content msg)) (py_last_n 5 conversation_history)
      else [])"

definition truthy_id :: "int option \<Rightarrow> bool" where
  "truthy_id x = (case x of None \<Rightarrow> False | Some i \<Rightarrow> i \<noteq> 0)"

definition gather_context :: "env \<Rightarrow> string \<Rightarrow> int option \<Rightarrow> database \<Rightarrow> exn + string option" where
  "gather_context env user_query selected_email_id d =
     (if truthy_id selected_email_id then
        (case get_email d (the selected_email_id) of
           None \<Rightarrow> Inr None
         | Some e \<Rightarrow>
             (case build_email_context env e of
                Inl ex \<Rightarrow> Inl ex
              | Inr c \<Rightarrow> Inr (Some c)))
      else if is_inbox_query user_query then Inr (Some (build_inbox_context d user_query))
      else Inr None)"

definition handle_query ::
  "env \<Rightarrow> string \<Rightarrow> int option \<Rightarrow> agent_message list \<Rightarrow> world \<Rightarrow> (exn + string) \<times> world" where
  "handle_query env user_query selected_email_id conversation_history w =
     (let messages = history_messages conversation_history
      in case gather_context env user_query selected_email_id (db w) of
           Inl ex \<Rightarrow> (Inl ex, w)
         | Inr email_context \<Rightarrow>
             (case answer_query env user_query email_context None messages (llm w) of
                (response, l') \<Rightarrow>
                  (Inr (if truthy response then the response else fallback), w\<lparr>llm := l'\<rparr>)))"

section \<open>Specification-side notions\<close>

text \<open>The outcomes of processing each id of a list in order, one after the other, and
  the world reached at the end.\<close>

fun run_each :: "env \<Rightarrow> int list \<Rightarrow> world \<Rightarrow> (exn + bool) list \<times> world" where
  "run_each env [] w = ([], w)"
| "run_each env (i # ids) w =
     (case process_email env i w of
        (r, w1) \<Rightarrow> (case run_each env ids w1 of (rs, w2) \<Rightarrow> (r # rs, w2)))"

definition item_failed :: "exn + bool \<Rightarrow> bool" where
  "item_failed r = (r \<noteq> Inr True)"

text \<open>A stored task is well-formed when it is a JSON object, as the declared type
  \<open>List[Dict[str, Any]]\<close> of \<open>Email.action_items\<close> says.\<close>

fun is_dict :: "json \<Rightarrow> bool" where
  "is_dict (JDict kvs) = True"
| "is_dict j = False"

section \<open>Instances for the examples\<close>

text \<open>
  \<open>plain_format\<close> stands for \<open>template.format(email_content=c)\<close> in the examples. It
  is meant for templates whose replacement fields are identifiers (letters, digits and
  underscores) or short numbers: \<open>{{\<close> and \<open>}}\<close> are the escaped braces, the field
  \<open>{email_content}\<close> is replaced, any other identifier raises \<open>KeyError\<close>, an empty
  or numeric field \<open>IndexError\<close>, and a brace without its partner \<open>ValueError\<close>. It is
  not \<open>str.format\<close> beyond that: fields with a conversion, a format specification, an
  attribute or an index, names that \<open>repr\<close> would escape, and numbers of many digits
  are outside the fragment, and the examples use none of them. The theorems about the
  services hold for every \<open>str_format\<close>.
\<close>

definition is_digit :: "char \<Rightarrow> bool" where
  "is_digit c = (48 \<le> (of_char c :: nat) \<and> (of_char c :: nat) \<le> 57)"

definition digits_value :: "string \<Rightarrow> nat" where
  "digits_value ds = foldl (\<lambda>a c. 10 * a + ((of_char c :: nat) - 48)) 0 ds"

definition lookup_field :: "string \<Rightarrow> string \<Rightarrow> exn + string" where
  "lookup_field name c =
     (if name = ''email_content'' then Inr c
      else if list_all is_digit name
      then Inl (IndexError (''Replacement index '' @ str_nat (digits_value name) @
                            '' out of range for positional args tuple''))
      else Inl (KeyError ([CHR 0x27] @ name @ [CHR 0x27])))"

definition then_append :: "exn + string \<Rightarrow> exn + string \<Rightarrow> exn + string" where
  "then_append a b =
     (case a of
        Inl ex \<Rightarrow> Inl ex
      | Inr x \<Rightarrow> (case b of Inl ex \<Rightarrow> Inl ex | Inr y \<Rightarrow> Inr (x @ y)))"

fun fmt_lit :: "string \<Rightarrow> string \<Rightarrow> exn + string"
  and fmt_field :: "string \<Rightarrow> string \<Rightarrow> string \<Rightarrow> exn + string" where
  "fmt_lit c [] = Inr []"
| "fmt_lit c [x] =
     (if x = CHR ''{''
      then Inl (ValueError (''Single '' @ [CHR 0x27] @ ''{'' @ [CHR 0x27] @
                            '' encountered in format string''))
      else if x = CHR ''}''
      then Inl (ValueError (''Single '' @ [CHR 0x27] @ ''}'' @ [CHR 0x27] @
                            '' encountered in format string''))
      else Inr [x])"
| "fmt_lit c (x # y # rest) =
     (if x = CHR ''{'' then
        (if y = CHR ''{'' then then_append (Inr [x]) (fmt_lit c rest)
         else fmt_field c [] (y # rest))
      else if x = CHR ''}'' then
        (if y = CHR ''}'' then then_append (Inr [x]) (fmt_lit c rest)
         else Inl (ValueError (''Single '' @ [CHR 0x27] @ ''}'' @ [CHR 0x27] @
                               '' encountered in format string'')))
      else then_append (Inr [x]) (fmt_lit c (y # rest)))"
| "fmt_field c name [] =
     Inl (ValueError (''expected '' @ [CHR 0x27] @ ''}'' @ [CHR 0x27] @
                      '' before end of string''))"
| "fmt_field c name (x # rest) =
     (if x = CHR ''}'' then then_append (lookup_field name c) (fmt_lit c rest)
      else if x \<in> set ''{!:.[''
      then Inl (ValueError ''field syntax outside the modelled fragment'')
      else fmt_field c (name @ [x]) rest)"

definition plain_format :: "string \<Rightarrow> string \<Rightarrow> exn + string" where
  "plain_format template c = fmt_lit c template"

text \<open>\<open>json.loads\<close> on the texts the examples meet, and \<open>str\<close> on a decoded string;
  the examples apply them to nothing else. On arrays nested a thousand deep the
  decoder of CPython raises \<open>RecursionError\<close> at the default recursion limit.\<close>

definition nested_arrays :: string where
  "nested_arrays = replicate 1000 CHR ''['' @ replicate 1000 CHR '']''"

definition example_loads :: "string \<Rightarrow> loads_result" where
  \<open>example_loads text =
     (if text = ''[]'' then Parsed (JList [])
      else if text = ''[{"task": "Reply"}]''
      then Parsed (JList [JDict [(''task'', JString ''Reply'')]])
      else if text = ''["Reply to Bob"]''
      then Parsed (JList [JString ''Reply to Bob''])
      else if text = nested_arrays
      then LoadsError (RecursionError
             (''maximum recursion depth exceeded while decoding '' @
              ''a JSON array from a unicode string''))
      else JSONDecodeError)\<close>

definition example_str :: "json \<Rightarrow> string" where
  "example_str j = (case j of JString s \<Rightarrow> s | _ \<Rightarrow> [])"

text \<open>An environment with the local backend answering every request with the same
  text, the remote backend rate-limited, and a store without faults; a fresh service;
  a store with one unprocessed email and the two templates.\<close>

definition example_env :: env where
  "example_env =
     \<lparr>llm_provider = Ollama, max_retries = 3,
      openai_create = (\<lambda>n. RateLimitError),
      ollama_post = (\<lambda>n. Ok200 ''This looks Important to me''),
      str_format = plain_format,
      json_loads = example_loads,
      py_str = example_str,
      update_error = (\<lambda>n. None),
      insert_log_fails = (\<lambda>n. False)\<rparr>"

definition fresh_llm :: llm_state where
  "fresh_llm = \<lparr>calls = 0, sleeps = [], total_tokens_used = 0, requests = [], ops = []\<rparr>"

definition example_email :: email where
  "example_email =
     \<lparr>email_id = 1, sender = ''test@example.com'', subject = ''Test Email'',
      body = ''Please review the document by Friday.'',
      timestamp = ''2025-11-24 10:00:00+00:00'', has_attachment = False,
      category = None, action_items = [], processed = False,
      created_at = ''2025-11-24 10:00:00''\<rparr>"

definition example_prompts :: "string \<Rightarrow> string option" where
  "example_prompts prompt_type =
     (if prompt_type = ''categorization'' then Some ''Category: {email_content}''
      else if prompt_type = ''action_extraction'' then Some ''Tasks: {email_content}''
      else None)"

definition example_db :: database where
  "example_db =
     \<lparr>emails = [example_email], prompts = example_prompts, logs = [],
      update_calls = 0, log_calls = 0\<rparr>"

definition example_world :: world where
  "example_world = \<lparr>db = example_db, llm = fresh_llm\<rparr>"

definition empty_world :: world where
  "empty_world =
     \<lparr>db = \<lparr>emails = [], prompts = example_prompts, logs = [], update_calls = 0, log_calls = 0\<rparr>,
      llm = fresh_llm\<rparr>"

definition api_error_env :: env where
  "api_error_env = example_env\<lparr>llm_provider := OpenAI, openai_create := (\<lambda>n. APIError)\<rparr>"

definition crash_env :: env where
  "crash_env = example_env\<lparr>llm_provider := OpenAI, openai_create := (\<lambda>n. OtherException)\<rparr>"

definition openai_env :: env where
  "openai_env =
     example_env\<lparr>llm_provider := OpenAI,
                 openai_create := (\<lambda>n. Completion (Some ''Important'') (Some 12))\<rparr>"

definition locked_env :: env where
  "locked_env = example_env\<lparr>update_error := (\<lambda>n. Some ''database is locked'')\<rparr>"

definition not_found_env :: env where
  "not_found_env = example_env\<lparr>ollama_post := (\<lambda>n. NotFound404)\<rparr>"

definition processed_world :: world where
  "processed_world =
     example_world\<lparr>db := example_db\<lparr>emails :=
       [example_email\<lparr>category := Some ''Spam'', processed := True\<rparr>]\<rparr>\<rparr>"

definition bad_template_world :: world where
  "bad_template_world =
     example_world\<lparr>db := example_db\<lparr>prompts :=
       (\<lambda>prompt_type. if prompt_type = ''categorization''
                       then Some ''Classify {category}: {email_content}'' else None)\<rparr>\<rparr>"

definition tasks_world :: world where
  "tasks_world =
     example_world\<lparr>db := example_db\<lparr>emails :=
       [example_email\<lparr>action_items := [JDict [(''task'', JString ''Reply'')]]\<rparr>]\<rparr>\<rparr>"

definition string_task_world :: world where
  "string_task_world =
     example_world\<lparr>db := example_db\<lparr>emails :=
       [example_email\<lparr>action_items := [JString ''Reply to Bob'']\<rparr>]\<rparr>\<rparr>"

definition api_then_crash_env :: env where
  "api_then_crash_env =
     example_env\<lparr>llm_provider := OpenAI,
                 openai_create := (\<lambda>n. if n = 0 then APIError else OtherException)\<rparr>"

definition string_tasks_env :: env where
  \<open>string_tasks_env =
     example_env\<lparr>ollama_post :=
       (\<lambda>n. if n = 0 then Ok200 ''Important''
            else if n = 1 then Ok200 ''["Reply to Bob"]''
            else Ok200 ''Here is a summary.'')\<rparr>\<close>

section \<open>Properties\<close>

subsection \<open>Response interpreters\<close>




lemma sublist_lower_iff:
  "sublist (py_lower name) (py_lower text) \<longleftrightarrow>
     (\<exists>pre seg post. text = pre @ seg @ post \<and> py_lower seg = py_lower name)"
proof
  assume "sublist (py_lower name) (py_lower text)"
  then obtain ps ss where h: "map lower_char text = ps @ (map lower_char name @ ss)"
    by (auto simp: sublist_def py_lower_def)
  from h[unfolded map_eq_append_conv]
  obtain pre rest where a: "text = pre @ rest" "map lower_char name @ ss = map lower_char rest"
    by blast
  from a(2)[symmetric, unfolded map_eq_append_conv]
  obtain seg post where b: "rest = seg @ post" "map lower_char name = map lower_char seg"
    by blast
  from a(1) b show "\<exists>pre seg post. text = pre @ seg @ post \<and> py_lower seg = py_lower name"
    unfolding py_lower_def by metis
next
  assume "\<exists>pre seg post. text = pre @ seg @ post \<and> py_lower seg = py_lower name"
  then obtain pre seg post where "text = pre @ seg @ post" "py_lower seg = py_lower name"
    by blast
  then have "py_lower text = py_lower pre @ py_lower name @ py_lower post"
    by (simp add: py_lower_def)
  then show "sublist (py_lower name) (py_lower text)"
    unfolding sublist_def by blast
qed

lemma py_find_nonneg: "py_find c s \<ge> - 1"
  by (induction s) (auto simp: Let_def)

lemma py_find_neg: "py_find c s = - 1 \<longleftrightarrow> c \<notin> set s"
proof (induction s)
  case Nil
  then show ?case by simp
next
  case (Cons x xs)
  have "py_find c xs \<ge> - 1" by (rule py_find_nonneg)
  with Cons show ?case by (auto simp: Let_def)
qed

lemma py_find_takeWhile: "c \<in> set s \<Longrightarrow> py_find c s = int (length (takeWhile (\<lambda>x. x \<noteq> c) s))"
  by (induction s) (auto simp: Let_def py_find_neg)

lemma py_rfind_ge: "py_rfind c s \<ge> - 1"
  by (induction s) (auto simp: Let_def)

lemma py_rfind_neg: "py_rfind c s = - 1 \<longleftrightarrow> c \<notin> set s"
proof (induction s)
  case Nil
  then show ?case by simp
next
  case (Cons x xs)
  have "py_rfind c xs \<ge> - 1" by (rule py_rfind_ge)
  with Cons show ?case by (auto simp: Let_def)
qed

lemma py_rfind_take:
  "c \<in> set s \<Longrightarrow> 0 \<le> py_rfind c s \<and>
     take (nat (py_rfind c s + 1)) s = rev (dropWhile (\<lambda>x. x \<noteq> c) (rev s))"
proof (induction s)
  case Nil
  then show ?case by simp
next
  case (Cons x xs)
  show ?case
  proof (cases "c \<in> set xs")
    case True
    with Cons.IH have ih: "0 \<le> py_rfind c xs" "take (nat (py_rfind c xs + 1)) xs = rev (dropWhile (\<lambda>x. x \<noteq> c) (rev xs))"
      by auto
    have "dropWhile (\<lambda>x. x \<noteq> c) (rev xs @ [x]) = dropWhile (\<lambda>x. x \<noteq> c) (rev xs) @ [x]"
      using True by (simp add: dropWhile_append1)
    with ih True show ?thesis
      by (auto simp: Let_def py_rfind_neg nat_add_distrib)
  next
    case False
    with Cons.prems have xc: "x = c" by simp
    have "dropWhile (\<lambda>x. x \<noteq> c) (rev xs @ [x]) = dropWhile (\<lambda>x. x \<noteq> c) [x]"
      by (rule dropWhile_append2) (use False in auto)
    then have "dropWhile (\<lambda>x. x \<noteq> c) (rev xs @ [x]) = [x]"
      using xc by simp
    with False xc show ?thesis
      by (auto simp: Let_def py_rfind_neg)
  qed
qed

lemma drop_takeWhile_len: "drop (length (takeWhile P xs)) xs = dropWhile P xs"
  by (induction xs) auto

lemma dropWhile_take:
  "dropWhile P (take n xs) = take (n - length (takeWhile P xs)) (dropWhile P xs)"
proof (induction xs arbitrary: n)
  case Nil
  then show ?case by simp
next
  case (Cons x xs)
  then show ?case by (cases n) auto
qed

lemma py_slice_span:
  assumes "CHR ''['' \<in> set s" "CHR '']'' \<in> set s"
  shows "py_slice s (py_find CHR ''['' s) (py_rfind CHR '']'' s + 1) = bracket_span s"
proof -
  let ?P = "\<lambda>c. c \<noteq> CHR ''[''"
  let ?i = "length (takeWhile ?P s)"
  let ?j = "nat (py_rfind CHR '']'' s + 1)"
  have i: "py_find CHR ''['' s = int ?i" using assms(1) by (rule py_find_takeWhile)
  have j: "0 \<le> py_rfind CHR '']'' s" "take ?j s = rev (dropWhile (\<lambda>x. x \<noteq> CHR '']'') (rev s))"
    using py_rfind_take[OF assms(2)] by auto
  have ile: "?i \<le> length s" by (rule length_takeWhile_le)
  have "py_slice s (int ?i) (py_rfind CHR '']'' s + 1) = take (min (length s) ?j - ?i) (drop ?i s)"
    using j(1) ile by (simp add: py_slice_def clamp_index_def Let_def min_absorb2)
  also have "\<dots> = take (?j - ?i) (drop ?i s)"
    by (cases "?j \<le> length s") (auto simp: min_def)
  also have "\<dots> = dropWhile ?P (take ?j s)"
    by (simp add: dropWhile_take drop_takeWhile_len)
  finally show ?thesis using i j(2) by (simp add: bracket_span_def)
qed



text \<open>
  The task-list interpreter in full. When the stripped response holds both brackets it
  hands the text from the first \<open>[\<close> through the last \<open>]\<close> to \<open>json.loads\<close>: a parsed
  array is returned, any other parsed value and a \<open>JSONDecodeError\<close> give the empty
  sequence, and any other exception of \<open>json.loads\<close> is raised. Without a response or
  without one of the brackets the result is the empty sequence.
\<close>

lemma task_list_extraction_cases:
  "action_items_of_response loads resp =
     (case resp of
        None \<Rightarrow> Inr []
      | Some raw \<Rightarrow>
          if CHR ''['' \<in> set (py_strip raw) \<and> CHR '']'' \<in> set (py_strip raw) then
            (case loads (bracket_span (py_strip raw)) of
               Parsed (JList items) \<Rightarrow> Inr items
             | Parsed _ \<Rightarrow> Inr []
             | JSONDecodeError \<Rightarrow> Inr []
             | LoadsError ex \<Rightarrow> Inl ex)
          else Inr [])"
proof (cases resp)
  case None
  then show ?thesis by (simp add: action_items_of_response_def)
next
  case (Some raw)
  show ?thesis
  proof (cases "raw = []")
    case True
    with Some show ?thesis by (simp add: action_items_of_response_def py_strip_def)
  next
    case False
    show ?thesis
    proof (cases "CHR ''['' \<in> set (py_strip raw) \<and> CHR '']'' \<in> set (py_strip raw)")
      case True
      then show ?thesis using Some False
        by (simp add: action_items_of_response_def Let_def py_find_neg py_rfind_neg py_slice_span
              split: loads_result.splits json.splits)
    next
      case False
      then show ?thesis using Some \<open>raw \<noteq> []\<close>
        by (auto simp: action_items_of_response_def Let_def py_find_neg py_rfind_neg)
    qed
  qed
qed

text \<open>The example of the specification.\<close>

lemma task_list_example:
  \<open>action_items_of_response example_loads
     (Some ''Sure, here you go: [{"task": "Reply"}] thanks!'') =
   Inr [JDict [(''task'', JString ''Reply'')]]\<close>
  by code_simp

lemma py_strip_noop:
  assumes "s \<noteq> []" "\<not> py_isspace (hd s)" "\<not> py_isspace (last s)"
  shows "py_strip s = s"
proof -
  have "dropWhile py_isspace s = s" using assms(2) by (simp add: dropWhile_eq_self_iff)
  moreover have "dropWhile py_isspace (rev s) = rev s"
    using assms(1,3) by (simp add: dropWhile_eq_self_iff hd_rev)
  ultimately show ?thesis by (simp add: py_strip_def)
qed

lemma bracket_span_noop:
  assumes "s \<noteq> []" "hd s = CHR ''[''" "last s = CHR '']''"
  shows "bracket_span s = s"
proof -
  have "dropWhile (\<lambda>c. c \<noteq> CHR '']'') (rev s) = rev s"
    using assms(1,3) by (simp add: dropWhile_eq_self_iff hd_rev)
  moreover have "dropWhile (\<lambda>c. c \<noteq> CHR ''['') s = s"
    using assms(2) by (simp add: dropWhile_eq_self_iff)
  ultimately show ?thesis by (simp add: bracket_span_def)
qed

lemma nested_arrays_shape:
  "nested_arrays \<noteq> []" "hd nested_arrays = CHR ''[''" "last nested_arrays = CHR '']''"
  "length nested_arrays = 2000"
  by (simp_all add: nested_arrays_def hd_append)

text \<open>
  C4 at a concrete input. The response is an array nested a thousand deep:
  \<open>json.loads\<close> raises \<open>RecursionError\<close>, which is no \<open>JSONDecodeError\<close>, and the
  interpreter raises it instead of returning the empty sequence.
\<close>

theorem nested_arrays_leave_interpreter:
  "action_items_of_response example_loads (Some nested_arrays) =
     Inl (RecursionError
            (''maximum recursion depth exceeded while decoding '' @
             ''a JSON array from a unicode string''))"
proof -
  have sp: "\<not> py_isspace CHR ''[''" "\<not> py_isspace CHR '']''" by code_simp+
  have strip: "py_strip nested_arrays = nested_arrays"
    using nested_arrays_shape sp by (simp add: py_strip_noop)
  have span: "bracket_span nested_arrays = nested_arrays"
    using nested_arrays_shape by (simp add: bracket_span_noop)
  have mem: "CHR ''['' \<in> set nested_arrays" "CHR '']'' \<in> set nested_arrays"
    by (simp_all add: nested_arrays_def)
  have ne: "nested_arrays \<noteq> ''[]''" "nested_arrays \<noteq> ''[{\"task\": \"Reply\"}]''"
    "nested_arrays \<noteq> ''[\"Reply to Bob\"]''"
    using nested_arrays_shape(4) by (auto dest!: arg_cong[where f = length])
  have "example_loads nested_arrays =
          LoadsError (RecursionError
            (''maximum recursion depth exceeded while decoding '' @
             ''a JSON array from a unicode string''))"
    using ne by (simp add: example_loads_def)
  then show ?thesis
    using strip span mem by (simp add: task_list_extraction_cases)
qed

subsection \<open>Retry policy of the remote client\<close>

text \<open>A backend that raises the same retried exception at every attempt: the loop runs
  to its end, sleeping between attempts.\<close>

lemma openai_retry_loop:
  assumes "n = nat (max_retries env)" "i \<le> n"
      and "\<forall>k<n - i. openai_create env (calls s + k) = out"
      and "out = RateLimitError \<and> f = (\<lambda>a. 2 ^ a) \<or>
           out = APITimeoutError \<and> f = (\<lambda>a. 1) \<or>
           out = APIError \<and> f = (\<lambda>a. 1)"
  shows "openai_attempts env m t [i..<n] s =
           (None, s\<lparr>calls := calls s + (n - i),
                    requests := requests s @ replicate (n - i) (ChatRequest m t),
                    sleeps := sleeps s @ map f [i..<n - 1]\<rparr>)"
  using assms(1,2,3)
proof (induction "n - i" arbitrary: i s)
  case 0
  then show ?case by simp
next
  case (Suc d)
  then have lt: "i < n" by simp
  then have upt: "[i..<n] = i # [Suc i..<n]" by (simp add: upt_conv_Cons)
  have out: "openai_create env (calls s) = out"
    using Suc.prems(3) lt by (metis add.right_neutral zero_less_diff)
  show ?case
  proof (cases "Suc i < n")
    case True
    let ?s1 = "s\<lparr>calls := Suc (calls s), requests := requests s @ [ChatRequest m t],
                  sleeps := sleeps s @ [f i]\<rparr>"
    have d: "d = n - Suc i" using Suc.hyps(2) by simp
    have rest: "\<forall>k<n - Suc i. openai_create env (calls ?s1 + k) = out"
    proof (intro allI impI)
      fix k assume "k < n - Suc i"
      then have "Suc k < n - i" by simp
      with Suc.prems(3) have "openai_create env (calls s + Suc k) = out" by blast
      then show "openai_create env (calls ?s1 + k) = out" by simp
    qed
    have ih: "openai_attempts env m t [Suc i..<n] ?s1 =
           (None, ?s1\<lparr>calls := calls ?s1 + (n - Suc i),
                    requests := requests ?s1 @ replicate (n - Suc i) (ChatRequest m t),
                    sleeps := sleeps ?s1 @ map f [Suc i..<n - 1]\<rparr>)"
      using Suc.hyps(1)[OF d Suc.prems(1) _ rest] True by simp
    have cond: "int i < max_retries env - 1" using True Suc.prems(1) by simp
    have upt2: "[i..<n - Suc 0] = i # [Suc i..<n - Suc 0]" using True by (simp add: upt_conv_Cons)
    have cnt: "Suc (calls s + (n - Suc i)) = calls s + (n - i)" using lt by simp
    have rep: "replicate (n - i) (ChatRequest m t) = ChatRequest m t # replicate (n - Suc i) (ChatRequest m t)"
      using lt by (metis Suc_diff_Suc replicate_Suc)
    from assms(4) show ?thesis
      unfolding upt using out cond ih
      by (elim disjE conjE) (simp_all add: Let_def upt2 rep cnt)
  next
    case False
    with lt have eq: "n = Suc i" by simp
    then have cond: "\<not> int i < max_retries env - 1" using Suc.prems(1) by simp
    from assms(4) show ?thesis unfolding upt using out cond eq
      by (elim disjE conjE) (simp_all add: Let_def)
  qed
qed

text \<open>
  C5. Against a backend that is rate-limited at every attempt, \<open>_call_llm\<close> sends
  exactly \<open>MAX_RETRIES\<close> requests (\<open>range\<close> of a negative count is empty, hence \<open>nat\<close>),
  sleeps \<open>2 ^ attempt\<close> seconds between consecutive attempts and not after the last,
  and returns none.
\<close>

theorem rate_limited_backend_exhausts_retries:
  assumes "\<forall>k < nat (max_retries env). openai_create env (calls s + k) = RateLimitError"
  shows "openai_call_llm env messages max_tokens s =
           (None, s\<lparr>calls := calls s + nat (max_retries env),
                    requests := requests s @
                      replicate (nat (max_retries env)) (ChatRequest messages max_tokens),
                    sleeps := sleeps s @
                      map (\<lambda>attempt. 2 ^ attempt) [0..<nat (max_retries env) - 1]\<rparr>)"
  using openai_retry_loop[of "nat (max_retries env)" env 0 s RateLimitError "\<lambda>a. 2 ^ a" messages max_tokens] assms
  by (simp add: openai_call_llm_def)

text \<open>With the default \<open>MAX_RETRIES = 3\<close>: three requests, sleeps of 1 and 2 seconds.\<close>

theorem rate_limited_witness:
  "openai_call_llm example_env [] 1000 fresh_llm =
     (None, \<lparr>calls = 3, sleeps = [1, 2], total_tokens_used = 0,
             requests = [ChatRequest [] 1000, ChatRequest [] 1000, ChatRequest [] 1000], ops = []\<rparr>)"
proof -
  have h: "\<forall>k < nat (max_retries example_env). openai_create example_env (calls fresh_llm + k) = RateLimitError"
    by (simp add: example_env_def)
  have n: "nat (max_retries example_env) = 3" by (simp add: example_env_def)
  from rate_limited_backend_exhausts_retries[OF h, of "[]" 1000] show ?thesis
    unfolding n by (simp add: fresh_llm_def upt_conv_Cons numeral_3_eq_3)
qed

text \<open>A run of API errors ended by an exception that is no API error: the call ends at
  that attempt.\<close>

lemma openai_api_errors_then_crash:
  assumes "n = nat (max_retries env)" "i + k < n"
      and "\<forall>j<k. openai_create env (calls s + j) = APIError"
      and "openai_create env (calls s + k) = OtherException"
  shows "openai_attempts env m t [i..<n] s =
           (None, s\<lparr>calls := calls s + Suc k,
                    requests := requests s @ replicate (Suc k) (ChatRequest m t),
                    sleeps := sleeps s @ replicate k 1\<rparr>)"
  using assms(2,3,4)
proof (induction k arbitrary: i s)
  case 0
  then have "[i..<n] = i # [Suc i..<n]" by (simp add: upt_conv_Cons)
  with 0 show ?case by (simp add: Let_def)
next
  case (Suc k)
  then have upt: "[i..<n] = i # [Suc i..<n]" by (simp add: upt_conv_Cons)
  have out: "openai_create env (calls s) = APIError"
    using Suc.prems(2) by (metis add.right_neutral zero_less_Suc)
  have cond: "int i < max_retries env - 1" using Suc.prems(1) assms(1) by simp
  let ?s1 = "s\<lparr>calls := Suc (calls s), requests := requests s @ [ChatRequest m t],
                sleeps := sleeps s @ [1]\<rparr>"
  have rest: "\<forall>j<k. openai_create env (calls ?s1 + j) = APIError"
  proof (intro allI impI)
    fix j assume "j < k"
    then have "Suc j < Suc k" by simp
    with Suc.prems(2) have "openai_create env (calls s + Suc j) = APIError" by blast
    then show "openai_create env (calls ?s1 + j) = APIError" by simp
  qed
  have last: "openai_create env (calls ?s1 + k) = OtherException"
    using Suc.prems(3) by simp
  have lt: "Suc i + k < n" using Suc.prems(1) by simp
  have ih: "openai_attempts env m t [Suc i..<n] ?s1 =
           (None, ?s1\<lparr>calls := calls ?s1 + Suc k,
                    requests := requests ?s1 @ replicate (Suc k) (ChatRequest m t),
                    sleeps := sleeps ?s1 @ replicate k 1\<rparr>)"
    by (rule Suc.IH[OF lt rest last])
  show ?case
    unfolding upt using out cond ih by (simp add: Let_def replicate_append_same)
qed

text \<open>
  C6, as the code has it. An API error other than rate limit and timeout is retried
  like a timeout: a sleep of one second between attempts, \<open>MAX_RETRIES\<close> attempts in
  all, then none. An exception that is no API error ends the call with none at the
  attempt it is raised in, whichever attempt that is and whatever attempts remain,
  without a sleep or a further request; so after \<open>k\<close> API errors it ends the call at
  request \<open>k + 1\<close>.
\<close>

theorem api_error_retry_policy:
  "((\<forall>k < nat (max_retries env). openai_create env (calls s + k) = APIError) \<longrightarrow>
      openai_call_llm env messages max_tokens s =
        (None, s\<lparr>calls := calls s + nat (max_retries env),
                 requests := requests s @
                   replicate (nat (max_retries env)) (ChatRequest messages max_tokens),
                 sleeps := sleeps s @ replicate (nat (max_retries env) - 1) 1\<rparr>)) \<and>
   (\<forall>attempt rest.
      openai_create env (calls s) = OtherException \<longrightarrow>
      openai_attempts env messages max_tokens (attempt # rest) s =
        (None, s\<lparr>calls := Suc (calls s),
                 requests := requests s @ [ChatRequest messages max_tokens]\<rparr>)) \<and>
   (\<forall>k. k < nat (max_retries env) \<and>
        (\<forall>j<k. openai_create env (calls s + j) = APIError) \<and>
        openai_create env (calls s + k) = OtherException \<longrightarrow>
      openai_call_llm env messages max_tokens s =
        (None, s\<lparr>calls := calls s + Suc k,
                 requests := requests s @ replicate (Suc k) (ChatRequest messages max_tokens),
                 sleeps := sleeps s @ replicate k 1\<rparr>))"
proof (intro conjI impI allI)
  assume a: "\<forall>k < nat (max_retries env). openai_create env (calls s + k) = APIError"
  have "map (\<lambda>a. 1) [0..<nat (max_retries env) - 1] = replicate (nat (max_retries env) - 1) (1::nat)"
    by (simp add: map_replicate_const)
  with openai_retry_loop[of "nat (max_retries env)" env 0 s APIError "\<lambda>a. 1" messages max_tokens] a
  show "openai_call_llm env messages max_tokens s =
        (None, s\<lparr>calls := calls s + nat (max_retries env),
                 requests := requests s @
                   replicate (nat (max_retries env)) (ChatRequest messages max_tokens),
                 sleeps := sleeps s @ replicate (nat (max_retries env) - 1) 1\<rparr>)"
    by (simp add: openai_call_llm_def)
next
  fix attempt rest
  assume "openai_create env (calls s) = OtherException"
  then show "openai_attempts env messages max_tokens (attempt # rest) s =
        (None, s\<lparr>calls := Suc (calls s),
                 requests := requests s @ [ChatRequest messages max_tokens]\<rparr>)"
    by (simp add: Let_def)
next
  fix k
  assume c: "k < nat (max_retries env) \<and>
        (\<forall>j<k. openai_create env (calls s + j) = APIError) \<and>
        openai_create env (calls s + k) = OtherException"
  then have "0 + k < nat (max_retries env)" by simp
  from openai_api_errors_then_crash[OF refl this, of s messages max_tokens] c
  show "openai_call_llm env messages max_tokens s =
        (None, s\<lparr>calls := calls s + Suc k,
                 requests := requests s @ replicate (Suc k) (ChatRequest messages max_tokens),
                 sleeps := sleeps s @ replicate k 1\<rparr>)"
    by (simp add: openai_call_llm_def)
qed

text \<open>Three API errors with the default \<open>MAX_RETRIES = 3\<close>; an exception that is no API
  error at the last attempt of the loop with requests still to come; and one API
  error followed by such an exception.\<close>

theorem api_error_retry_witness:
  "openai_call_llm api_error_env [] 1000 fresh_llm =
     (None, fresh_llm\<lparr>calls := 3, requests := replicate 3 (ChatRequest [] 1000), sleeps := [1, 1]\<rparr>) \<and>
   openai_attempts crash_env [] 1000 [1, 2] fresh_llm =
     (None, fresh_llm\<lparr>calls := 1, requests := [ChatRequest [] 1000]\<rparr>) \<and>
   openai_call_llm api_then_crash_env [] 1000 fresh_llm =
     (None, fresh_llm\<lparr>calls := 2, requests := replicate 2 (ChatRequest [] 1000), sleeps := [1]\<rparr>)"
proof -
  have n: "nat (max_retries api_error_env) = 3" by (simp add: api_error_env_def example_env_def)
  have a: "\<forall>k < nat (max_retries api_error_env). openai_create api_error_env (calls fresh_llm + k) = APIError"
    by (simp add: api_error_env_def)
  have b: "openai_create crash_env (calls fresh_llm) = OtherException"
    by (simp add: crash_env_def example_env_def)
  have c: "1 < nat (max_retries api_then_crash_env) \<and>
        (\<forall>j<1. openai_create api_then_crash_env (calls fresh_llm + j) = APIError) \<and>
        openai_create api_then_crash_env (calls fresh_llm + 1) = OtherException"
    by (simp add: api_then_crash_env_def example_env_def fresh_llm_def)
  note pol = api_error_retry_policy
  from pol[of api_error_env fresh_llm "[]" 1000] a
  have 1: "openai_call_llm api_error_env [] 1000 fresh_llm =
     (None, fresh_llm\<lparr>calls := 3, requests := replicate 3 (ChatRequest [] 1000), sleeps := [1, 1]\<rparr>)"
    unfolding n by (simp add: fresh_llm_def numeral_3_eq_3)
  from pol[of crash_env fresh_llm "[]" 1000] b
  have 2: "openai_attempts crash_env [] 1000 [1, 2] fresh_llm =
     (None, fresh_llm\<lparr>calls := 1, requests := [ChatRequest [] 1000]\<rparr>)"
    by (simp add: fresh_llm_def)
  have "openai_call_llm api_then_crash_env [] 1000 fresh_llm =
     (None, fresh_llm\<lparr>calls := calls fresh_llm + Suc 1,
              requests := requests fresh_llm @ replicate (Suc 1) (ChatRequest [] 1000),
              sleeps := sleeps fresh_llm @ replicate 1 1\<rparr>)"
    using pol[of api_then_crash_env fresh_llm "[]" 1000] c by blast
  then have 3: "openai_call_llm api_then_crash_env [] 1000 fresh_llm =
     (None, fresh_llm\<lparr>calls := 2, requests := replicate 2 (ChatRequest [] 1000), sleeps := [1]\<rparr>)"
    by (simp add: fresh_llm_def numeral_2_eq_2)
  from 1 2 3 show ?thesis by simp
qed

text \<open>C6 as stated fails: after an API error the backend is attempted twice more when
  \<open>MAX_RETRIES\<close> is 3, with two sleeps.\<close>

theorem api_error_three_attempts:
  "fst (openai_call_llm api_error_env [] 1000 fresh_llm) = None \<and>
   calls (snd (openai_call_llm api_error_env [] 1000 fresh_llm)) = 3 \<and>
   sleeps (snd (openai_call_llm api_error_env [] 1000 fresh_llm)) = [1, 1]"
  by (simp add: openai_call_llm_def api_error_env_def example_env_def fresh_llm_def upt_conv_Cons Let_def)

subsection \<open>Processing pipeline\<close>

text \<open>The service keeps its record of operations through the retry loops, and the
  pipeline's steps before the update leave the emails of the store as they are.\<close>

lemma openai_attempts_ops: "ops (snd (openai_attempts env m t as s)) = ops s"
  by (induction as arbitrary: s) (auto simp: Let_def split: openai_outcome.splits option.splits)

lemma ollama_attempts_ops: "ops (snd (ollama_attempts env p t as s)) = ops s"
  by (induction as arbitrary: s) (auto simp: Let_def split: ollama_outcome.splits)

lemma openai_call_llm_ops: "openai_call_llm env m t s = (r, s') \<Longrightarrow> ops s' = ops s"
  using openai_attempts_ops[of env m t "[0..<nat (max_retries env)]" s]
  by (simp add: openai_call_llm_def)

lemma ollama_call_llm_ops: "ollama_call_llm env m t s = (r, s') \<Longrightarrow> ops s' = ops s"
  using ollama_attempts_ops[of env "messages_to_prompt m" t "[0..<3]" s]
  by (simp add: ollama_call_llm_def)

lemma categorize_email_ops:
  assumes "categorize_email env c t s = (r, s')"
  shows "ops s' = ops s @ [OpCategorize]"
proof (cases "llm_provider env")
  case OpenAI
  show ?thesis
  proof (cases "str_format env t c")
    case (Inl ex)
    with assms OpenAI show ?thesis
      by (auto simp: categorize_email_def openai_categorize_email_def enter_def Let_def)
  next
    case (Inr prompt)
    obtain resp s2 where call:
      "openai_call_llm env [(''system'', categorize_system), (''user'', prompt)] 50
         (enter OpCategorize s) = (resp, s2)"
      by (cases "openai_call_llm env [(''system'', categorize_system), (''user'', prompt)] 50
         (enter OpCategorize s)")
    with assms OpenAI Inr have "s' = s2"
      by (auto simp: categorize_email_def openai_categorize_email_def Let_def)
    with openai_call_llm_ops[OF call] show ?thesis by (simp add: enter_def)
  qed
next
  case Ollama
  let ?m = "[(''system'', categorize_system),
             (''user'', py_replace ''{email_content}'' c t)]"
  obtain resp s2 where call: "ollama_call_llm env ?m 50 (enter OpCategorize s) = (resp, s2)"
    by (cases "ollama_call_llm env ?m 50 (enter OpCategorize s)")
  with assms Ollama have "s' = s2"
    by (auto simp: categorize_email_def ollama_categorize_email_def Let_def)
  with ollama_call_llm_ops[OF call] show ?thesis by (simp add: enter_def)
qed

lemma log_processing_frame:
  "emails (log_processing env i opn st resp err d) = emails d"
  "update_calls (log_processing env i opn st resp err d) = update_calls d"
  "prompts (log_processing env i opn st resp err d) = prompts d"
  by (simp_all add: log_processing_def Let_def)

lemma processor_categorize_frame:
  assumes "processor_categorize_email env e w = (r, w1)"
  shows "emails (db w1) = emails (db w) \<and> update_calls (db w1) = update_calls (db w) \<and>
         prompts (db w1) = prompts (db w) \<and>
         (ops (llm w1) = ops (llm w) \<or> ops (llm w1) = ops (llm w) @ [OpCategorize])"
proof (cases "get_prompt (db w) ''categorization''")
  case None
  with assms show ?thesis by (simp add: processor_categorize_email_def)
next
  case (Some t)
  obtain rc l' where call: "categorize_email env (email_content_of e) t (llm w) = (rc, l')"
    by (cases "categorize_email env (email_content_of e) t (llm w)")
  note o = categorize_email_ops[OF call]
  show ?thesis
  proof (cases rc)
    case (Inl ex)
    with assms Some call o show ?thesis
      by (auto simp: processor_categorize_email_def)
  next
    case (Inr cat)
    with assms Some call o show ?thesis
      by (cases "truthy cat") (auto simp: processor_categorize_email_def log_processing_frame)
  qed
qed

lemma processor_extract_frame:
  assumes "processor_extract_action_items env e w = (r, w2)"
  shows "emails (db w2) = emails (db w) \<and> update_calls (db w2) = update_calls (db w) \<and>
         prompts (db w2) = prompts (db w)"
proof (cases "get_prompt (db w) ''action_extraction''")
  case None
  with assms show ?thesis by (simp add: processor_extract_action_items_def)
next
  case (Some t)
  obtain rc l' where call: "extract_action_items env (email_content_of e) t (llm w) = (rc, l')"
    by (cases "extract_action_items env (email_content_of e) t (llm w)")
  show ?thesis
  proof (cases rc)
    case (Inl ex)
    with assms Some call show ?thesis
      by (auto simp: processor_extract_action_items_def)
  next
    case (Inr items)
    with assms Some call show ?thesis
      by (auto simp: processor_extract_action_items_def log_processing_frame)
  qed
qed

lemma get_email_cong: "emails d' = emails d \<Longrightarrow> get_email d' i = get_email d i"
  by (simp add: get_email_def)

lemma find_map_id:
  assumes "\<And>x. P (f x) = P x"
  shows "find P (map f xs) = map_option f (find P xs)"
  by (induction xs) (auto simp: assms)

lemma get_email_updated:
  assumes "get_email d i = Some e" "update_email env i cat items proc d = (None, d')"
  shows "get_email d' i = Some (set_fields cat items proc e)"
proof -
  let ?f = "\<lambda>e. if email_id e = i then set_fields cat items proc e else e"
  have id: "\<And>x. (email_id (?f x) = i) = (email_id x = i)"
    by (simp add: set_fields_def)
  have "emails d' = map ?f (emails d)"
    using assms(2) by (auto simp: update_email_def Let_def split: option.splits)
  then have "get_email d' i = map_option ?f (get_email d i)"
    unfolding get_email_def using find_map_id[of "\<lambda>e. email_id e = i" ?f "emails d"] id by simp
  moreover have "email_id e = i" using assms(1) unfolding get_email_def
    by (metis (mono_tags, lifting) find_Some_iff)
  ultimately show ?thesis using assms(1) by simp
qed

lemma update_email_failed:
  assumes "update_email env i cat items proc d = (Some ex, d')"
  shows "emails d' = emails d" "update_error env (update_calls d) \<noteq> None"
  using assms by (auto simp: update_email_def Let_def split: option.splits)

lemma update_email_ok:
  assumes "update_email env i cat items proc d = (None, d')"
  shows "update_error env (update_calls d) = None"
  using assms by (auto simp: update_email_def Let_def split: option.splits)

lemma process_email_absent:
  "get_email (db w) i = None \<Longrightarrow> process_email env i w = (Inr False, w)"
  by (simp add: process_email_def)

lemma process_email_cat_raised:
  "get_email (db w) i = Some e \<Longrightarrow> processor_categorize_email env e w = (Inl ex, w1) \<Longrightarrow>
   process_email env i w = (Inl ex, w1)"
  by (simp add: process_email_def)

lemma process_email_cat_failed:
  "get_email (db w) i = Some e \<Longrightarrow> processor_categorize_email env e w = (Inr cat, w1) \<Longrightarrow>
   \<not> truthy cat \<Longrightarrow>
   process_email env i w =
     (Inr False, w1\<lparr>db := log_processing env i ''categorization'' ''failed''
                            None (Some ''LLM categorization failed'') (db w1)\<rparr>)"
  by (simp add: process_email_def)

lemma process_email_extract_raised:
  "get_email (db w) i = Some e \<Longrightarrow> processor_categorize_email env e w = (Inr cat, w1) \<Longrightarrow>
   truthy cat \<Longrightarrow> processor_extract_action_items env e w1 = (Inl ex, w2) \<Longrightarrow>
   process_email env i w = (Inl ex, w2)"
  by (simp add: process_email_def)

lemma process_email_update_failed:
  "get_email (db w) i = Some e \<Longrightarrow> processor_categorize_email env e w = (Inr cat, w1) \<Longrightarrow>
   truthy cat \<Longrightarrow> processor_extract_action_items env e w1 = (Inr items, w2) \<Longrightarrow>
   update_email env i cat (Some items) (Some True) (db w2) = (Some ex, d3) \<Longrightarrow>
   process_email env i w =
     (Inr False, w2\<lparr>db := log_processing env i ''database_update'' ''failed''
                            None (Some (str_exn ex)) d3\<rparr>)"
  by (simp add: process_email_def)

lemma process_email_done:
  "get_email (db w) i = Some e \<Longrightarrow> processor_categorize_email env e w = (Inr cat, w1) \<Longrightarrow>
   truthy cat \<Longrightarrow> processor_extract_action_items env e w1 = (Inr items, w2) \<Longrightarrow>
   update_email env i cat (Some items) (Some True) (db w2) = (None, d3) \<Longrightarrow>
   process_email env i w =
     (Inr True, w2\<lparr>db := log_processing env i ''complete_processing'' ''success''
                           (Some (''Category: '' @ the cat @ '', Actions: '' @
                                  str_nat (length items)))
                           None d3\<rparr>)"
  by (simp add: process_email_def)

text \<open>
  C2. When categorization returns no result (none or the empty string) for an item of
  the store, the run returns failure; the emails of the store are unchanged, so the
  processed flag stays as it was; \<open>update_email\<close> is not called; and the service is
  left as categorization left it, with no extraction entered.
\<close>

theorem failed_categorization_aborts_item:
  assumes "get_email (db w) i = Some e"
      and "processor_categorize_email env e w = (Inr cat, w1)"
      and "\<not> truthy cat"
  shows "\<exists>w'. process_email env i w = (Inr False, w') \<and>
           emails (db w') = emails (db w) \<and>
           update_calls (db w') = update_calls (db w) \<and>
           llm w' = llm w1 \<and>
           count_list (ops (llm w')) OpExtract = count_list (ops (llm w)) OpExtract"
proof -
  let ?w' = "w1\<lparr>db := log_processing env i ''categorization'' ''failed''
                         None (Some ''LLM categorization failed'') (db w1)\<rparr>"
  have run: "process_email env i w = (Inr False, ?w')"
    using assms by (rule process_email_cat_failed)
  have fr: "emails (db w1) = emails (db w)" "update_calls (db w1) = update_calls (db w)"
    "ops (llm w1) = ops (llm w) \<or> ops (llm w1) = ops (llm w) @ [OpCategorize]"
    using processor_categorize_frame[OF assms(2)] by simp_all
  have ops: "count_list (ops (llm w1)) OpExtract = count_list (ops (llm w)) OpExtract"
    using fr(3) by auto
  have "emails (db ?w') = emails (db w)" "update_calls (db ?w') = update_calls (db w)"
    "llm ?w' = llm w1"
    using fr(1,2) by (simp_all add: log_processing_frame)
  with run ops show ?thesis by simp
qed

text \<open>The local backend answers 404: the run of the example item fails, and the store
  still holds the item unprocessed.\<close>

theorem failed_categorization_witness:
  "fst (process_email not_found_env 1 example_world) = Inr False \<and>
   emails (db (snd (process_email not_found_env 1 example_world))) = [example_email] \<and>
   update_calls (db (snd (process_email not_found_env 1 example_world))) = 0 \<and>
   count_list (ops (llm (snd (process_email not_found_env 1 example_world)))) OpExtract = 0"
proof -
  have g: "get_email (db example_world) 1 = Some example_email" by code_simp
  have "fst (processor_categorize_email not_found_env example_email example_world) = Inr None"
    by code_simp
  then have c: "processor_categorize_email not_found_env example_email example_world =
                  (Inr None, snd (processor_categorize_email not_found_env example_email example_world))"
    by (metis prod.collapse)
  have t: "\<not> truthy None" by (simp add: truthy_def)
  from failed_categorization_aborts_item[OF g c t] show ?thesis
    by (auto simp: example_world_def example_db_def fresh_llm_def)
qed

text \<open>
  C1, as the code has it. For an item of the store and a run that returns, the
  processed flag is true afterwards exactly when it was true before, or categorization
  returned a non-empty result and the update of the store did not fail; the run
  reports success exactly in the latter case. What extraction found plays no part.
\<close>

theorem processed_flag_after_run:
  assumes "get_email (db w) i = Some e"
      and "process_email env i w = (Inr ok, w')"
  shows "\<exists>e'. get_email (db w') i = Some e' \<and>
           (processed e' \<longleftrightarrow>
              processed e \<or>
              (truthy (case fst (processor_categorize_email env e w) of Inl ex \<Rightarrow> None | Inr c \<Rightarrow> c) \<and>
               update_error env (update_calls (db w)) = None)) \<and>
           (ok \<longleftrightarrow>
              truthy (case fst (processor_categorize_email env e w) of Inl ex \<Rightarrow> None | Inr c \<Rightarrow> c) \<and>
              update_error env (update_calls (db w)) = None)"
proof -
  obtain rc w1 where c: "processor_categorize_email env e w = (rc, w1)"
    by (cases "processor_categorize_email env e w")
  have f1: "emails (db w1) = emails (db w)" "update_calls (db w1) = update_calls (db w)"
    using processor_categorize_frame[OF c] by simp_all
  show ?thesis
  proof (cases rc)
    case (Inl ex)
    from process_email_cat_raised[OF assms(1) c[unfolded Inl]] assms(2)
    show ?thesis by simp
  next
    case (Inr cat)
    note c' = c[unfolded Inr]
    show ?thesis
    proof (cases "truthy cat")
      case False
      from process_email_cat_failed[OF assms(1) c' False] assms(2)
      have ok: "ok = False"
        and w': "w' = w1\<lparr>db := log_processing env i ''categorization'' ''failed''
                            None (Some ''LLM categorization failed'') (db w1)\<rparr>"
        by simp_all
      have "emails (db w') = emails (db w)"
        unfolding w' using f1 by (simp add: log_processing_frame)
      then have "get_email (db w') i = Some e"
        using assms(1) by (simp add: get_email_def)
      with ok False c Inr show ?thesis by simp
    next
      case True
      obtain rx w2 where x: "processor_extract_action_items env e w1 = (rx, w2)"
        by (cases "processor_extract_action_items env e w1")
      have f2: "emails (db w2) = emails (db w1)" "update_calls (db w2) = update_calls (db w1)"
        using processor_extract_frame[OF x] by simp_all
      show ?thesis
      proof (cases rx)
        case (Inl ex)
        from process_email_extract_raised[OF assms(1) c' True x[unfolded Inl]] assms(2)
        show ?thesis by simp
      next
        case items: (Inr items)
        note x' = x[unfolded items]
        obtain ru d3 where u: "update_email env i cat (Some items) (Some True) (db w2) = (ru, d3)"
          by (cases "update_email env i cat (Some items) (Some True) (db w2)")
        have g2: "get_email (db w2) i = Some e"
          using assms(1) f1 f2 by (simp add: get_email_def)
        have uc: "update_calls (db w2) = update_calls (db w)" using f1 f2 by simp
        show ?thesis
        proof (cases ru)
          case None
          note u' = u[unfolded None]
          from process_email_done[OF assms(1) c' True x' u'] assms(2)
          have ok: "ok = True"
            and w': "w' = w2\<lparr>db := log_processing env i ''complete_processing'' ''success''
                           (Some (''Category: '' @ the cat @ '', Actions: '' @
                                  str_nat (length items)))
                           None d3\<rparr>"
            by simp_all
          have "emails (db w') = emails d3" unfolding w' by (simp add: log_processing_frame)
          then have "get_email (db w') i = get_email d3 i" by (simp add: get_email_def)
          with get_email_updated[OF g2 u']
          have g: "get_email (db w') i = Some (set_fields cat (Some items) (Some True) e)" by simp
          have p: "processed (set_fields cat (Some items) (Some True) e)"
            by (simp add: set_fields_def)
          have "update_error env (update_calls (db w)) = None"
            using update_email_ok[OF u'] uc by simp
          with g p ok c Inr True show ?thesis by simp
        next
          case (Some ex)
          note u' = u[unfolded Some]
          from process_email_update_failed[OF assms(1) c' True x' u'] assms(2)
          have ok: "ok = False"
            and w': "w' = w2\<lparr>db := log_processing env i ''database_update'' ''failed''
                            None (Some (str_exn ex)) d3\<rparr>"
            by simp_all
          have "emails (db w') = emails (db w)"
            unfolding w' using update_email_failed(1)[OF u'] f1 f2
            by (simp add: log_processing_frame)
          then have g: "get_email (db w') i = Some e" using assms(1) by (simp add: get_email_def)
          have "update_error env (update_calls (db w)) \<noteq> None"
            using update_email_failed(2)[OF u'] uc by simp
          with g ok c Inr True show ?thesis by auto
        qed
      qed
    qed
  qed
qed

theorem processed_flag_witness:
  "\<exists>e'. get_email (db (snd (process_email example_env 1 example_world))) 1 = Some e' \<and> processed e'"
proof -
  have g: "get_email (db example_world) 1 = Some example_email" by code_simp
  have r: "fst (process_email example_env 1 example_world) = Inr True" by code_simp
  then have p: "process_email example_env 1 example_world =
                  (Inr True, snd (process_email example_env 1 example_world))"
    by (metis prod.collapse)
  from processed_flag_after_run[OF g p] show ?thesis by auto
qed

text \<open>C1 as stated fails: categorization returns \<open>Important\<close> and the update raises, so
  the item stays unprocessed; and an item processed earlier stays processed when a
  later run's categorization fails.\<close>

theorem persistence_failure_leaves_unprocessed:
  "fst (processor_categorize_email locked_env example_email example_world) = Inr (Some ''Important'') \<and>
   fst (process_email locked_env 1 example_world) = Inr False \<and>
   map processed (emails (db (snd (process_email locked_env 1 example_world)))) = [False] \<and>
   fst (process_email not_found_env 1 processed_world) = Inr False \<and>
   map processed (emails (db (snd (process_email not_found_env 1 processed_world)))) = [True]"
  by code_simp

subsection \<open>Batch processing\<close>

lemma batch_loop_fields:
  "run_each env ids w = (rs, w_end) \<Longrightarrow>
   total (fst (batch_loop env ids res w)) = total res \<and>
   successful (fst (batch_loop env ids res w)) =
     successful res + length (filter (\<lambda>r. \<not> item_failed r) rs) \<and>
   failed (fst (batch_loop env ids res w)) = failed res + length (filter item_failed rs) \<and>
   length (errors (fst (batch_loop env ids res w))) =
     length (errors res) + length (filter item_failed rs) \<and>
   snd (batch_loop env ids res w) = w_end \<and> length rs = length ids"
proof (induction ids arbitrary: res w rs)
  case Nil
  then show ?case by simp
next
  case (Cons i ids)
  obtain r w1 where p: "process_email env i w = (r, w1)" by (cases "process_email env i w")
  obtain rs' where rest: "run_each env ids w1 = (rs', w_end)" and rs: "rs = r # rs'"
    using Cons.prems p by (auto split: prod.splits)
  show ?case
  proof (cases r)
    case (Inl ex)
    with p rs Cons.IH[OF rest] show ?thesis by (simp add: item_failed_def)
  next
    case (Inr ok)
    with p rs Cons.IH[OF rest] show ?thesis by (cases ok) (simp_all add: item_failed_def)
  qed
qed

text \<open>
  C8. For every list of ids, \<open>batch_process_emails\<close> returns a result: every id is
  processed in order (the world reached is the one reached by processing each id in
  turn), \<open>total\<close> is the number \<open>N\<close> of ids, \<open>failed\<close> is the number \<open>K\<close> of items whose
  processing returned failure or raised, \<open>successful\<close> is \<open>N - K\<close>, and the error list
  has \<open>K\<close> entries.
\<close>

theorem batch_counts:
  "case batch_process_emails env ids w of
     (res, w') \<Rightarrow>
       (case run_each env ids w of
          (outcomes, w_end) \<Rightarrow>
            length outcomes = length ids \<and>
            total res = length ids \<and>
            failed res = length (filter item_failed outcomes) \<and>
            successful res = length ids - length (filter item_failed outcomes) \<and>
            length (errors res) = length (filter item_failed outcomes) \<and>
            w' = w_end)"
proof -
  obtain rs w_end where r: "run_each env ids w = (rs, w_end)" by (cases "run_each env ids w")
  let ?res0 = "\<lparr>total = length ids, successful = 0, failed = 0, errors = []\<rparr>"
  note f = batch_loop_fields[OF r, of ?res0]
  have "length (filter (\<lambda>r. \<not> item_failed r) rs) + length (filter item_failed rs) = length rs"
    using sum_length_filter_compl[of item_failed rs] by simp
  then have "length (filter (\<lambda>r. \<not> item_failed r) rs) = length ids - length (filter item_failed rs)"
    using f by simp
  moreover obtain res w' where b: "batch_loop env ids ?res0 w = (res, w')"
    by (cases "batch_loop env ids ?res0 w")
  ultimately show ?thesis
    using f r by (simp add: batch_process_emails_def)
qed

text \<open>Two ids, the second not in the store.\<close>

theorem batch_counts_witness:
  "total (fst (batch_process_emails example_env [1, 2] example_world)) = 2 \<and>
   successful (fst (batch_process_emails example_env [1, 2] example_world)) = 1 \<and>
   failed (fst (batch_process_emails example_env [1, 2] example_world)) = 1 \<and>
   length (errors (fst (batch_process_emails example_env [1, 2] example_world))) = 1"
proof -
  have "fst (run_each example_env [1, 2] example_world) = [Inr True, Inr False]"
    by code_simp
  then obtain w_end where r: "run_each example_env [1, 2] example_world = ([Inr True, Inr False], w_end)"
    by (metis prod.collapse)
  from batch_counts[where env = example_env and ids = "[1, 2]" and w = example_world] r
  show ?thesis
    by (auto simp: item_failed_def split: prod.splits)
qed

text \<open>An exception raised by one item is caught and recorded.\<close>

lemma batch_catches_exception:
  "fst (process_email openai_env 1 bad_template_world) =
     Inl (KeyError ([CHR 0x27] @ ''category'' @ [CHR 0x27])) \<and>
   failed (fst (batch_process_emails openai_env [1] bad_template_world)) = 1 \<and>
   errors (fst (batch_process_emails openai_env [1] bad_template_world)) =
     [''Email 1: '' @ [CHR 0x27] @ ''category'' @ [CHR 0x27]]"
  by code_simp

subsection \<open>Exceptions at the provider boundary\<close>

text \<open>
  C7 at a concrete input. With the remote service, a template with a replacement
  field other than \<open>email_content\<close> makes \<open>categorize_email\<close> raise \<open>KeyError\<close> before
  any request is sent; the local service, which fills the placeholder with
  \<open>str.replace\<close>, returns a category for the same template.
\<close>

theorem format_error_leaves_remote_client:
  "categorize_email openai_env ''Hello'' ''Classify {category}: {email_content}'' fresh_llm =
     (Inl (KeyError ([CHR 0x27] @ ''category'' @ [CHR 0x27])), enter OpCategorize fresh_llm) \<and>
   fst (categorize_email example_env ''Hello'' ''Classify {category}: {email_content}'' fresh_llm) =
     Inr (Some ''Important'')"
  by code_simp

text \<open>In general: whatever \<open>str.format\<close> raises leaves the three templated operations
  of the remote service. The local service raises nothing when it fills a template;
  its extraction raises only what the task-list interpreter raises.\<close>

lemma openai_format_error_propagates:
  assumes "llm_provider env = OpenAI" "str_format env t c = Inl ex"
  shows "categorize_email env c t s = (Inl ex, enter OpCategorize s)"
    and "extract_action_items env c t s = (Inl ex, enter OpExtract s)"
    and "generate_reply env c ctx t u s = (Inl ex, enter OpReply s)"
  using assms
  by (simp_all add: categorize_email_def extract_action_items_def generate_reply_def
        openai_categorize_email_def openai_extract_action_items_def openai_generate_reply_def
        Let_def)

lemma ollama_template_never_raises:
  assumes "llm_provider env = Ollama"
  shows "\<exists>r s'. categorize_email env c t s = (Inr r, s')"
    and "\<exists>r s'. generate_reply env c ctx t u s = (Inr r, s')"
    and "\<exists>resp s'. extract_action_items env c t s =
           (action_items_of_response (json_loads env) resp, s')"
  using assms
  by (auto simp: categorize_email_def extract_action_items_def generate_reply_def
        ollama_extract_action_items_def Let_def
        split: prod.splits)

subsection \<open>Query router\<close>

lemma fallback_nonempty: "fallback \<noteq> []"
  by (simp add: fallback_def)

lemma truthy_the: "truthy r \<Longrightarrow> the r \<noteq> []"
  by (auto simp: truthy_def split: option.splits)

lemma task_lines_dicts:
  "list_all is_dict items \<Longrightarrow> \<exists>lines. task_lines env items = Inr lines"
proof (induction items)
  case Nil
  then show ?case by simp
next
  case (Cons item items)
  then obtain kvs where "item = JDict kvs" by (cases item) auto
  with Cons show ?case by auto
qed

lemma build_email_context_dicts:
  "list_all is_dict (action_items e) \<Longrightarrow> \<exists>c. build_email_context env e = Inr c"
  using task_lines_dicts[of "action_items e" env]
  by (auto simp: build_email_context_def Let_def)

lemma gather_context_total:
  assumes "\<forall>e. truthy_id sel \<longrightarrow> get_email d (the sel) = Some e \<longrightarrow> list_all is_dict (action_items e)"
  shows "\<exists>ctx. gather_context env q sel d = Inr ctx"
proof (cases "truthy_id sel")
  case False
  then show ?thesis by (simp add: gather_context_def)
next
  case True
  show ?thesis
  proof (cases "get_email d (the sel)")
    case None
    with True show ?thesis by (simp add: gather_context_def)
  next
    case (Some e)
    with assms True have "list_all is_dict (action_items e)" by simp
    from build_email_context_dicts[OF this, of env] obtain c where "build_email_context env e = Inr c" ..
    with True Some show ?thesis by (simp add: gather_context_def)
  qed
qed

lemma handle_query_never_empty: "fst (handle_query env q sel hist w) \<noteq> Inr []"
  by (auto simp: handle_query_def Let_def fallback_nonempty truthy_the
      split: sum.splits prod.splits)

text \<open>
  When the tasks stored with the focused item are JSON objects, as the declared type of
  \<open>Email.action_items\<close> says, \<open>handle_query\<close> returns a non-empty string: the answer of
  the service when that is a non-empty text, and the fixed fallback message when the
  service yields none or the empty text.
\<close>

lemma handle_query_nonempty:
  assumes "\<forall>e. truthy_id sel \<longrightarrow> get_email (db w) (the sel) = Some e \<longrightarrow>
             list_all is_dict (action_items e)"
  shows "\<exists>s w' ctx. handle_query env q sel hist w = (Inr s, w') \<and> s \<noteq> [] \<and>
           gather_context env q sel (db w) = Inr ctx \<and>
           s = (let response = fst (answer_query env q ctx None (history_messages hist) (llm w))
                in if truthy response then the response else fallback)"
proof -
  from gather_context_total[OF assms, of env q]
  obtain ctx where g: "gather_context env q sel (db w) = Inr ctx" ..
  obtain response l' where a:
    "answer_query env q ctx None (history_messages hist) (llm w) = (response, l')"
    by (cases "answer_query env q ctx None (history_messages hist) (llm w)")
  let ?s = "if truthy response then the response else fallback"
  have h: "handle_query env q sel hist w = (Inr ?s, w\<lparr>llm := l'\<rparr>)"
    using g a by (simp add: handle_query_def Let_def)
  have "?s \<noteq> []" by (simp add: fallback_nonempty truthy_the)
  with h g a show ?thesis by (simp add: Let_def)
qed

text \<open>The local backend answers 404 and the focused item has a task: the fallback.\<close>

lemma handle_query_example:
  "fst (handle_query not_found_env ''summarize this'' (Some 1) [] tasks_world) = Inr fallback"
proof -
  have a: "\<forall>e. truthy_id (Some 1) \<longrightarrow> get_email (db tasks_world) (the (Some 1)) = Some e \<longrightarrow>
             list_all is_dict (action_items e)"
    by (simp add: tasks_world_def example_world_def example_db_def example_email_def get_email_def)
  have "\<And>ctx. fst (answer_query not_found_env ''summarize this'' ctx None (history_messages [])
               (llm tasks_world)) = None"
    by (simp add: answer_query_def not_found_env_def example_env_def ollama_answer_query_def
          ollama_call_llm_def upt_conv_Cons Let_def)
  with handle_query_nonempty[OF a, of not_found_env "''summarize this''" "[]"]
  show ?thesis by (auto simp: truthy_def Let_def)
qed

text \<open>A stored task that is a string makes the context of the focused item raise.\<close>

lemma non_object_task_raises:
  "fst (handle_query example_env ''summarize this'' (Some 1) [] string_task_world) =
     Inl (AttributeError
            ([CHR 0x27] @ ''str'' @ [CHR 0x27] @ '' object has no attribute '' @
             [CHR 0x27] @ ''get'' @ [CHR 0x27]))"
  by code_simp

text \<open>
  C9 at a concrete input. The pipeline processes the example item and the model
  answers the extraction with a JSON array of strings; the interpreter returns the
  array as it is and the pipeline stores it. A query focused on that item then raises
  \<open>AttributeError\<close> from \<open>item.get\<close> instead of returning a string.
\<close>

theorem stored_string_task_makes_query_raise:
  "fst (process_email string_tasks_env 1 example_world) = Inr True \<and>
   map action_items (emails (db (snd (process_email string_tasks_env 1 example_world)))) =
     [[JString ''Reply to Bob'']] \<and>
   fst (handle_query string_tasks_env ''summarize this'' (Some 1) []
          (snd (process_email string_tasks_env 1 example_world))) =
     Inl (AttributeError
            ([CHR 0x27] @ ''str'' @ [CHR 0x27] @ '' object has no attribute '' @
             [CHR 0x27] @ ''get'' @ [CHR 0x27]))"
  by code_simp

text \<open>
  C10, as the code has it. When a focused id other than 0 is given and the store has
  no item with that id, no context is built whatever the query says, and the query
  goes to the service as it is: the result is that of the plain call, whose user
  message is the query.
\<close>

theorem absent_focus_plain_query:
  assumes "i \<noteq> 0" "get_email (db w) i = None"
  shows "gather_context env q (Some i) (db w) = Inr None \<and>
         handle_query env q (Some i) hist w =
           (case answer_query env q None None (history_messages hist) (llm w) of
              (response, l') \<Rightarrow>
                (Inr (if truthy response then the response else fallback), w\<lparr>llm := l'\<rparr>)) \<and>
         last (answer_messages q None None (history_messages hist)) = (''user'', q)"
  using assms
  by (simp add: gather_context_def truthy_id_def handle_query_def Let_def answer_messages_def
        truthy_def)

theorem absent_focus_witness:
  "gather_context example_env ''show me all emails'' (Some 7) (db example_world) = Inr None \<and>
   fst (handle_query example_env ''show me all emails'' (Some 7) [] example_world) =
     Inr ''This looks Important to me''"
proof -
  have a: "(7::int) \<noteq> 0" by simp
  have b: "get_email (db example_world) 7 = None" by code_simp
  have "fst (answer_query example_env ''show me all emails'' None None (history_messages [])
               (llm example_world)) = Some ''This looks Important to me''"
    by code_simp
  with absent_focus_plain_query[OF a b, of example_env "''show me all emails''" "[]"]
  show ?thesis by (auto simp: truthy_def split: prod.splits)
qed

text \<open>C10 as stated fails for the id 0, which \<open>if selected_email_id:\<close> takes as no
  focus: the keywords are consulted and a collection context is built.\<close>

theorem zero_focus_consults_keywords:
  "get_email (db empty_world) 0 = None \<and>
   is_inbox_query ''show me all emails'' \<and>
   gather_context example_env ''show me all emails'' (Some 0) (db empty_world) =
     Inr (Some ''Inbox is empty.'')"
  by code_simp

end
